theory Spec2Isabelle
  imports Main
begin

section \<open>Cargo tracking: the MongoDB repositories and the booking service\<close>

text \<open>
  The sources hold three Go files: a MongoDB storage package in a padded variant
  (lines 1-352 of \<^verbatim>\<open>mongo.go\<close>), the same package in a time-instrumented variant
  (lines 353-721) and the booking service (lines 722-965).  The packages \<^verbatim>\<open>cargo\<close>,
  \<^verbatim>\<open>location\<close> and \<^verbatim>\<open>voyage\<close> they import are not among the sources; their types
  are written down here from the fields the sources use and from the specification.

  Go strings are \<^typ>\<open>string\<close>, \<^verbatim>\<open>time.Time\<close> is an instant on the integer time line
  (the zero time is \<^term>\<open>0::int\<close>), an \<^verbatim>\<open>error\<close> is a value of the datatype \<open>error\<close>
  and \<^verbatim>\<open>nil\<close> is \<^term>\<open>None\<close>.
\<close>

subsection \<open>Domain types\<close>

type_synonym TrackingID = string
type_synonym UNLocode = string
type_synonym VoyageNumber = string
type_synonym Time = int

definition IsZero :: "Time \<Rightarrow> bool" where
  "IsZero t = (t = 0)"

text \<open>\<^verbatim>\<open>location.Location\<close>: the sources read \<^verbatim>\<open>UNLocode\<close> and \<^verbatim>\<open>Name\<close> (lines 903-906).\<close>

record Location =
  l_UNLocode :: UNLocode
  l_Name :: string

text \<open>\<^verbatim>\<open>voyage.Voyage\<close>: the sources read \<^verbatim>\<open>Number\<close> only (line 267).\<close>

record Voyage =
  v_Number :: VoyageNumber

text \<open>
  Modelled from the spec: the type \<^verbatim>\<open>cargo.HandlingEvent\<close> is not among the sources.
  Section 3 of the specification gives an event a type, a location, a voyage (present
  for Load and Unload only), a completion time and a registration time; the tracking
  identity is the key \<^verbatim>\<open>trackingid\<close> the sources select events by (lines 341, 706).
\<close>

datatype HandlingEventType = Receive | Load | Unload | Customs | Claim

record HandlingEvent =
  he_TrackingID :: TrackingID
  he_Type :: HandlingEventType
  he_Location :: UNLocode
  he_Voyage :: "VoyageNumber option"
  he_CompletionTime :: Time
  he_RegistrationTime :: Time

record HandlingHistory =
  HandlingEvents :: "HandlingEvent list"

text \<open>
  \<^verbatim>\<open>cargo.RouteSpecification\<close>, as the composite literal of lines 803-807 and 865-869
  builds it.
\<close>

record RouteSpecification =
  rs_Origin :: UNLocode
  rs_Destination :: UNLocode
  rs_ArrivalDeadline :: Time

text \<open>
  Modelled from the spec: \<^verbatim>\<open>cargo.Leg\<close> is not among the sources (section 3: voyage key,
  load and unload location, scheduled load and unload time).  \<^verbatim>\<open>cargo.Itinerary\<close> has the
  field \<^verbatim>\<open>Legs\<close> (lines 782, 964).
\<close>

record Leg =
  VoyageNumber :: VoyageNumber
  LoadLocation :: UNLocode
  UnloadLocation :: UNLocode
  LoadTime :: Time
  UnloadTime :: Time

record Itinerary =
  Legs :: "Leg list"

definition Itinerary_IsEmpty :: "Itinerary \<Rightarrow> bool" where
  "Itinerary_IsEmpty i = (length (Legs i) = 0)"

text \<open>
  Modelled from the spec: \<^verbatim>\<open>cargo.Delivery\<close> is not among the sources, which read its
  \<^verbatim>\<open>RoutingStatus\<close> only (line 961).  The fields are those of section 3, the constants
  of each status in the order the specification lists them.
\<close>

datatype TransportStatus = NotReceived | InPort | OnboardCarrier | Claimed | Unknown

datatype RoutingStatus = NotRouted | Routed | Misrouted

record HandlingActivity =
  ha_Type :: HandlingEventType
  ha_Location :: UNLocode
  ha_Voyage :: "VoyageNumber option"

record Delivery =
  d_TransportStatus :: TransportStatus
  d_LastKnownLocation :: UNLocode
  d_CurrentVoyage :: "VoyageNumber option"
  d_IsMisdirected :: bool
  d_ETA :: "Time option"
  d_NextExpectedActivity :: "HandlingActivity option"
  d_IsUnloadedAtDestination :: bool
  d_RoutingStatus :: RoutingStatus
  d_LastUpdated :: Time

text \<open>
  \<^verbatim>\<open>cargo.Cargo\<close>, with the fields the sources read (lines 866-868, 958-964).  The
  cargo carries its own \<^verbatim>\<open>Origin\<close> beside the origin of its route specification.
\<close>

record Cargo =
  c_TrackingID :: TrackingID
  c_Origin :: UNLocode
  c_RouteSpecification :: RouteSpecification
  c_Itinerary :: Itinerary
  c_Delivery :: Delivery

text \<open>Go's zero values: what decoding a document without any of a struct's fields leaves.\<close>

definition zero_Delivery :: Delivery where
  "zero_Delivery =
     \<lparr>d_TransportStatus = NotReceived, d_LastKnownLocation = '''', d_CurrentVoyage = None,
      d_IsMisdirected = False, d_ETA = None, d_NextExpectedActivity = None,
      d_IsUnloadedAtDestination = False, d_RoutingStatus = NotRouted, d_LastUpdated = 0\<rparr>"

definition zero_Cargo :: Cargo where
  "zero_Cargo =
     \<lparr>c_TrackingID = '''', c_Origin = '''',
      c_RouteSpecification = \<lparr>rs_Origin = '''', rs_Destination = '''', rs_ArrivalDeadline = 0\<rparr>,
      c_Itinerary = \<lparr>Legs = []\<rparr>, c_Delivery = zero_Delivery\<rparr>"

subsection \<open>The cargo aggregate\<close>

text \<open>
  Modelled from the spec: the methods \<^verbatim>\<open>AssignToRoute\<close> and \<^verbatim>\<open>SpecifyNewRoute\<close> of
  \<^verbatim>\<open>cargo.Cargo\<close> are called by the booking service (lines 792, 865) and are not among
  the sources.  Section 4.3: \<^verbatim>\<open>assignToRoute\<close> replaces the itinerary unconditionally and
  re-derives the delivery, with no error condition; \<^verbatim>\<open>specifyNewRoute\<close> replaces the route
  specification and re-derives the delivery, and fails with InvalidState if origin
  equals destination (on failure the cargo is left as it was).

  The derivation engine of section 4.2 is not among the sources either.  It is the
  parameter \<open>derive\<close>: the delivery as a function of the aggregate after the replacement.
\<close>

datatype error =
    ErrNotFound
  | cargo_ErrUnknown
  | location_ErrUnknown
  | voyage_ErrUnknown
  | ErrInvalidArgument
  | InvalidState
  | DriverError string

definition AssignToRoute :: "(Cargo \<Rightarrow> Delivery) \<Rightarrow> Cargo \<Rightarrow> Itinerary \<Rightarrow> Cargo" where
  "AssignToRoute derive c itinerary =
     (let c1 = c\<lparr>c_Itinerary := itinerary\<rparr>
      in c1\<lparr>c_Delivery := derive c1\<rparr>)"

definition SpecifyNewRoute ::
  "(Cargo \<Rightarrow> Delivery) \<Rightarrow> Cargo \<Rightarrow> RouteSpecification \<Rightarrow> error option \<times> Cargo" where
  "SpecifyNewRoute derive c rs =
     (if rs_Origin rs = rs_Destination rs then (Some InvalidState, c)
      else (let c1 = c\<lparr>c_RouteSpecification := rs\<rparr>
            in (None, c1\<lparr>c_Delivery := derive c1\<rparr>)))"

text \<open>
  Modelled from the spec: \<open>satisfies\<close> of section 4.1 and the two rules of section 4.2
  that need the route specification and the itinerary only: the routing status (rule 5)
  and the estimated arrival (rule 7).  \<open>deriveRouting\<close> recomputes these two fields and
  keeps the others; it is the engine the closed examples below run with.
\<close>

definition satisfies :: "Itinerary \<Rightarrow> RouteSpecification \<Rightarrow> bool" where
  "satisfies i rs =
     (case Legs i of
        [] \<Rightarrow> False
      | l # ls \<Rightarrow>
          LoadLocation l = rs_Origin rs \<and>
          UnloadLocation (last (l # ls)) = rs_Destination rs \<and>
          (IsZero (rs_ArrivalDeadline rs) \<or> UnloadTime (last (l # ls)) \<le> rs_ArrivalDeadline rs))"

definition routingStatus :: "Itinerary \<Rightarrow> RouteSpecification \<Rightarrow> RoutingStatus" where
  "routingStatus i rs =
     (if Legs i = [] then NotRouted
      else if satisfies i rs then Routed
      else Misrouted)"

definition deriveRouting :: "Cargo \<Rightarrow> Delivery" where
  "deriveRouting c =
     (let status = routingStatus (c_Itinerary c) (c_RouteSpecification c)
      in (c_Delivery c)
           \<lparr>d_RoutingStatus := status,
            d_ETA := (if status = Routed then Some (UnloadTime (last (Legs (c_Itinerary c))))
                      else None)\<rparr>)"

subsection \<open>The MongoDB driver\<close>

text \<open>
  The driver \<^verbatim>\<open>mgo\<close> is a library, not code of the repository.  What the repositories
  use of it:

  \<^item> A collection is the list of its documents in natural order.
  \<^item> A session either works or fails every operation with an I/O error
    (\<open>fault\<close>), leaving the collection as it was.
  \<^item> \<^verbatim>\<open>Find(sel).One\<close> gives the first document the selector matches, or
    \<^verbatim>\<open>mgo.ErrNotFound\<close>.
  \<^item> \<^verbatim>\<open>Find(sel).All\<close> gives the matching documents in natural order.  The sources
    never call \<^verbatim>\<open>Sort\<close>.
  \<^item> \<^verbatim>\<open>Upsert(sel, {$set: d})\<close> updates the first matching document, or inserts a new
    one when none matches.  Every selector of the sources is an equality on the key
    field of \<open>d\<close> and \<^verbatim>\<open>$set\<close> writes every field of \<open>d\<close>, so the document is \<open>d\<close> in
    either case.
  \<^item> \<^verbatim>\<open>Insert\<close> appends a document.
  \<^item> \<^verbatim>\<open>Remove(sel)\<close> deletes the first matching document, or fails with
    \<^verbatim>\<open>mgo.ErrNotFound\<close>.
\<close>

record Session =
  fault :: "string option"

definition Query_One :: "Session \<Rightarrow> ('a \<Rightarrow> bool) \<Rightarrow> 'a list \<Rightarrow> error + 'a" where
  "Query_One s sel docs =
     (case fault s of
        Some m \<Rightarrow> Inl (DriverError m)
      | None \<Rightarrow> (case find sel docs of None \<Rightarrow> Inl ErrNotFound | Some d \<Rightarrow> Inr d))"

definition Query_All :: "Session \<Rightarrow> ('a \<Rightarrow> bool) \<Rightarrow> 'a list \<Rightarrow> error + 'a list" where
  "Query_All s sel docs =
     (case fault s of
        Some m \<Rightarrow> Inl (DriverError m)
      | None \<Rightarrow> Inr (filter sel docs))"

fun update_first :: "('a \<Rightarrow> bool) \<Rightarrow> 'a \<Rightarrow> 'a list \<Rightarrow> 'a list" where
  "update_first sel d [] = []"
| "update_first sel d (x # xs) = (if sel x then d # xs else x # update_first sel d xs)"

fun remove_first :: "('a \<Rightarrow> bool) \<Rightarrow> 'a list \<Rightarrow> 'a list" where
  "remove_first sel [] = []"
| "remove_first sel (x # xs) = (if sel x then xs else x # remove_first sel xs)"

definition Collection_Upsert ::
  "Session \<Rightarrow> ('a \<Rightarrow> bool) \<Rightarrow> 'a \<Rightarrow> 'a list \<Rightarrow> error option \<times> 'a list" where
  "Collection_Upsert s sel d docs =
     (case fault s of
        Some m \<Rightarrow> (Some (DriverError m), docs)
      | None \<Rightarrow> (None, if list_ex sel docs then update_first sel d docs else docs @ [d]))"

definition Collection_Insert :: "Session \<Rightarrow> 'a \<Rightarrow> 'a list \<Rightarrow> error option \<times> 'a list" where
  "Collection_Insert s d docs =
     (case fault s of
        Some m \<Rightarrow> (Some (DriverError m), docs)
      | None \<Rightarrow> (None, docs @ [d]))"

definition Collection_Remove ::
  "Session \<Rightarrow> ('a \<Rightarrow> bool) \<Rightarrow> 'a list \<Rightarrow> error option \<times> 'a list" where
  "Collection_Remove s sel docs =
     (case fault s of
        Some m \<Rightarrow> (Some (DriverError m), docs)
      | None \<Rightarrow> (if list_ex sel docs then (None, remove_first sel docs)
                 else (Some ErrNotFound, docs)))"

definition EnsureIndex :: "Session \<Rightarrow> error option" where
  "EnsureIndex s = (case fault s of Some m \<Rightarrow> Some (DriverError m) | None \<Rightarrow> None)"

text \<open>
  The collection \<^verbatim>\<open>cargo\<close> holds two kinds of document: a cargo, and the filler record
  \<^verbatim>\<open>{trackingid_g, garbage}\<close> the padded variant writes beside it (line 57).  A filler
  record has no field \<^verbatim>\<open>trackingid\<close> and a cargo none \<^verbatim>\<open>trackingid_g\<close>, so each selector
  matches one kind only.  Decoding a filler record into a \<^verbatim>\<open>cargo.Cargo\<close> finds none of
  the struct's fields and leaves the zero value.
\<close>

datatype document = CargoDoc Cargo | GarbageDoc TrackingID string

fun sel_trackingid :: "TrackingID \<Rightarrow> document \<Rightarrow> bool" where
  "sel_trackingid tid (CargoDoc c) = (c_TrackingID c = tid)"
| "sel_trackingid tid (GarbageDoc g s) = False"

fun sel_trackingid_g :: "TrackingID \<Rightarrow> document \<Rightarrow> bool" where
  "sel_trackingid_g tid (CargoDoc c) = False"
| "sel_trackingid_g tid (GarbageDoc g s) = (g = tid)"

fun decode_Cargo :: "document \<Rightarrow> Cargo" where
  "decode_Cargo (CargoDoc c) = c"
| "decode_Cargo (GarbageDoc g s) = zero_Cargo"

text \<open>
  What the program prints is a list of lines; the elapsed time of a \<open>Took\<close> line is
  read off the clock and is not part of the line here.
\<close>

datatype printed =
    Took string
  | FoundError error
  | FoundCargos nat
  | UnableToFind TrackingID error

text \<open>
  The state of the world: the four collections of the database that the repositories
  name in their field \<^verbatim>\<open>db\<close>, the package variable \<^verbatim>\<open>GARBAGE_CARGO\<close> of the padded
  variant (line 19) and the standard output.
\<close>

record Garbage =
  g_Garbage :: string

record world =
  cargo_c :: "document list"
  location_c :: "Location list"
  voyage_c :: "Voyage list"
  handling_event_c :: "HandlingEvent list"
  GARBAGE_CARGO :: Garbage
  stdout :: "printed list"

definition println :: "printed \<Rightarrow> world \<Rightarrow> world" where
  "println line w = w\<lparr>stdout := stdout w @ [line]\<rparr>"

text \<open>All four repository structs have the fields \<^verbatim>\<open>db\<close> and \<^verbatim>\<open>session\<close>.\<close>

record repository =
  db :: string
  session :: Session

type_synonym cargoRepository = repository
type_synonym locationRepository = repository
type_synonym voyageRepository = repository
type_synonym handlingEventRepository = repository

subsection \<open>The padded variant of the repositories (lines 1-352)\<close>

text \<open>
  \<^verbatim>\<open>timed\<close> (line 21) prints the method and the time it took; every method defers it,
  so the line is printed when the method returns.
\<close>

definition timed :: "string \<Rightarrow> world \<Rightarrow> world" where
  "timed method w = println (Took method) w"

text \<open>
  \<^verbatim>\<open>Remove\<close> (line 31) removes the cargo and its filler record and returns the error of
  the first removal only.
\<close>

definition padded_cargoRepository_Remove ::
  "cargoRepository \<Rightarrow> Cargo \<Rightarrow> world \<Rightarrow> error option \<times> world" where
  "padded_cargoRepository_Remove r cargo w =
     (let (err, docs1) =
            Collection_Remove (session r) (sel_trackingid (c_TrackingID cargo)) (cargo_c w);
          (err_g, docs2) =
            Collection_Remove (session r) (sel_trackingid_g (c_TrackingID cargo)) docs1
      in (err, timed ''Removing a cargo'' (w\<lparr>cargo_c := docs2\<rparr>)))"

text \<open>
  \<^verbatim>\<open>Store\<close> (line 46) upserts the cargo under \<^verbatim>\<open>trackingid\<close>, then the package variable
  \<^verbatim>\<open>GARBAGE_CARGO\<close> under \<^verbatim>\<open>trackingid_g\<close>, and returns the error of the first upsert.
\<close>

definition padded_cargoRepository_Store ::
  "cargoRepository \<Rightarrow> Cargo \<Rightarrow> world \<Rightarrow> error option \<times> world" where
  "padded_cargoRepository_Store r cargo w =
     (let (err, docs1) =
            Collection_Upsert (session r) (sel_trackingid (c_TrackingID cargo))
              (CargoDoc cargo) (cargo_c w);
          (err_g, docs2) =
            Collection_Upsert (session r) (sel_trackingid_g (c_TrackingID cargo))
              (GarbageDoc (c_TrackingID cargo) (g_Garbage (GARBAGE_CARGO w))) docs1
      in (err, timed ''Storing a cargo'' (w\<lparr>cargo_c := docs2\<rparr>)))"

text \<open>
  \<^verbatim>\<open>Find\<close> (line 62) first reads the filler record into a value it drops (line 71),
  then looks the cargo up.
\<close>

definition padded_cargoRepository_Find ::
  "cargoRepository \<Rightarrow> TrackingID \<Rightarrow> world \<Rightarrow> (error + Cargo) \<times> world" where
  "padded_cargoRepository_Find r tid w =
     (let dropped = Query_One (session r) (sel_trackingid_g tid) (cargo_c w);
          result =
            (case Query_One (session r) (sel_trackingid tid) (cargo_c w) of
               Inl err \<Rightarrow> if err = ErrNotFound then Inl cargo_ErrUnknown else Inl err
             | Inr d \<Rightarrow> Inr (decode_Cargo d))
      in (result, timed ''Finding a single cargo'' w))"

text \<open>
  \<^verbatim>\<open>FindAll\<close> (line 84) selects with the empty selector, which matches every document
  of the collection, and decodes each into a cargo.
\<close>

definition padded_cargoRepository_FindAll ::
  "cargoRepository \<Rightarrow> world \<Rightarrow> Cargo list \<times> world" where
  "padded_cargoRepository_FindAll r w =
     (case Query_All (session r) (\<lambda>d. True) (cargo_c w) of
        Inl err \<Rightarrow> ([], timed ''Find all cargos'' (println (FoundError err) w))
      | Inr docs \<Rightarrow>
          (let result = map decode_Cargo docs
           in (result, timed ''Find all cargos'' (println (FoundCargos (length result)) w))))"

text \<open>
  \<^verbatim>\<open>NewCargoRepository\<close> (line 104).  \<^verbatim>\<open>os.Getenv\<close> gives the empty string for a
  variable that is not set.  The loop of lines 107-109 appends one \<^verbatim>\<open>a\<close> per round to
  the package variable.  The index of lines 117-123 constrains nothing the repositories
  do (cargos are written by upsert on the indexed key only); building it fails when
  the session does.
\<close>

type_synonym env = "string \<Rightarrow> string option"

definition Getenv :: "env \<Rightarrow> string \<Rightarrow> string" where
  "Getenv e k = (case e k of None \<Rightarrow> '''' | Some v \<Rightarrow> v)"

fun pad :: "nat \<Rightarrow> string \<Rightarrow> string" where
  "pad 0 s = s"
| "pad (Suc n) s = pad n (s @ ''a'')"

definition padded_NewCargoRepository ::
  "env \<Rightarrow> string \<Rightarrow> Session \<Rightarrow> world \<Rightarrow> (error + cargoRepository) \<times> world" where
  "padded_NewCargoRepository e name sess w =
     (let w1 = (if Getenv e ''NO_PADDING'' = ''''
                then w\<lparr>GARBAGE_CARGO := \<lparr>g_Garbage = pad (60 * 1024) (g_Garbage (GARBAGE_CARGO w))\<rparr>\<rparr>
                else w);
          r = \<lparr>db = name, session = sess\<rparr>
      in case EnsureIndex (session r) of
           Some err \<Rightarrow> (Inl err, w1)
         | None \<Rightarrow> (Inr r, w1))"

definition padded_locationRepository_Find ::
  "locationRepository \<Rightarrow> UNLocode \<Rightarrow> world \<Rightarrow> (error + Location) \<times> world" where
  "padded_locationRepository_Find r locode w =
     (let result =
            (case Query_One (session r) (\<lambda>l. l_UNLocode l = locode) (location_c w) of
               Inl err \<Rightarrow> if err = ErrNotFound then Inl location_ErrUnknown else Inl err
             | Inr l \<Rightarrow> Inr l)
      in (result, timed ''Find a location'' w))"

definition padded_locationRepository_FindAll ::
  "locationRepository \<Rightarrow> world \<Rightarrow> Location list \<times> world" where
  "padded_locationRepository_FindAll r w =
     (case Query_All (session r) (\<lambda>l. True) (location_c w) of
        Inl err \<Rightarrow> ([], timed ''Find all locations'' w)
      | Inr ls \<Rightarrow> (ls, timed ''Find all locations'' w))"

definition padded_locationRepository_store ::
  "locationRepository \<Rightarrow> Location \<Rightarrow> world \<Rightarrow> error option \<times> world" where
  "padded_locationRepository_store r l w =
     (let (err, docs) =
            Collection_Upsert (session r) (\<lambda>x. l_UNLocode x = l_UNLocode l) l (location_c w)
      in (err, timed ''Saving a location'' (w\<lparr>location_c := docs\<rparr>)))"

definition padded_voyageRepository_Find ::
  "voyageRepository \<Rightarrow> VoyageNumber \<Rightarrow> world \<Rightarrow> (error + Voyage) \<times> world" where
  "padded_voyageRepository_Find r voyageNumber w =
     (let result =
            (case Query_One (session r) (\<lambda>v. v_Number v = voyageNumber) (voyage_c w) of
               Inl err \<Rightarrow> if err = ErrNotFound then Inl voyage_ErrUnknown else Inl err
             | Inr v \<Rightarrow> Inr v)
      in (result, timed ''Find a voyage'' w))"

definition padded_voyageRepository_store ::
  "voyageRepository \<Rightarrow> Voyage \<Rightarrow> world \<Rightarrow> error option \<times> world" where
  "padded_voyageRepository_store r v w =
     (let (err, docs) =
            Collection_Upsert (session r) (\<lambda>x. v_Number x = v_Number v) v (voyage_c w)
      in (err, timed ''Storing a voyage'' (w\<lparr>voyage_c := docs\<rparr>)))"

text \<open>The handling-event repository drops the errors of the driver (lines 328, 341).\<close>

definition padded_handlingEventRepository_Store ::
  "handlingEventRepository \<Rightarrow> HandlingEvent \<Rightarrow> world \<Rightarrow> world" where
  "padded_handlingEventRepository_Store r e w =
     (let (err, docs) = Collection_Insert (session r) e (handling_event_c w)
      in timed ''Storing a handle event'' (w\<lparr>handling_event_c := docs\<rparr>))"

definition padded_handlingEventRepository_QueryHandlingHistory ::
  "handlingEventRepository \<Rightarrow> TrackingID \<Rightarrow> world \<Rightarrow> HandlingHistory \<times> world" where
  "padded_handlingEventRepository_QueryHandlingHistory r tid w =
     (let result =
            (case Query_All (session r) (\<lambda>e. he_TrackingID e = tid) (handling_event_c w) of
               Inl err \<Rightarrow> []
             | Inr es \<Rightarrow> es)
      in (\<lparr>HandlingEvents = result\<rparr>, timed ''Querying handle history for single cargo'' w))"

subsection \<open>The time-instrumented variant of the repositories (lines 353-721)\<close>

text \<open>
  In this variant the repositories themselves print nothing; each is wrapped in a
  struct whose methods defer \<^verbatim>\<open>timeTrack\<close> (line 371) and call the wrapped method.
\<close>

definition timeTrack :: "string \<Rightarrow> world \<Rightarrow> world" where
  "timeTrack name w = println (Took name) w"

definition cargoRepository_Remove ::
  "cargoRepository \<Rightarrow> Cargo \<Rightarrow> world \<Rightarrow> error option \<times> world" where
  "cargoRepository_Remove r cargo w =
     (let (err, docs) =
            Collection_Remove (session r) (sel_trackingid (c_TrackingID cargo)) (cargo_c w)
      in (err, w\<lparr>cargo_c := docs\<rparr>))"

definition cargoRepository_Store ::
  "cargoRepository \<Rightarrow> Cargo \<Rightarrow> world \<Rightarrow> error option \<times> world" where
  "cargoRepository_Store r cargo w =
     (let (err, docs) =
            Collection_Upsert (session r) (sel_trackingid (c_TrackingID cargo))
              (CargoDoc cargo) (cargo_c w)
      in (err, w\<lparr>cargo_c := docs\<rparr>))"

definition cargoRepository_Find :: "cargoRepository \<Rightarrow> TrackingID \<Rightarrow> world \<Rightarrow> error + Cargo" where
  "cargoRepository_Find r tid w =
     (case Query_One (session r) (sel_trackingid tid) (cargo_c w) of
        Inl err \<Rightarrow> if err = ErrNotFound then Inl cargo_ErrUnknown else Inl err
      | Inr d \<Rightarrow> Inr (decode_Cargo d))"

definition cargoRepository_FindAll :: "cargoRepository \<Rightarrow> world \<Rightarrow> Cargo list" where
  "cargoRepository_FindAll r w =
     (case Query_All (session r) (\<lambda>d. True) (cargo_c w) of
        Inl err \<Rightarrow> []
      | Inr docs \<Rightarrow> map decode_Cargo docs)"

record timeCargoRepository =
  cargo :: cargoRepository

definition timeCargoRepository_Remove ::
  "timeCargoRepository \<Rightarrow> Cargo \<Rightarrow> world \<Rightarrow> error option \<times> world" where
  "timeCargoRepository_Remove r c w =
     (let (err, w1) = cargoRepository_Remove (cargo r) c w
      in (err, timeTrack ''cargo Remove'' w1))"

definition timeCargoRepository_Store ::
  "timeCargoRepository \<Rightarrow> Cargo \<Rightarrow> world \<Rightarrow> error option \<times> world" where
  "timeCargoRepository_Store r c w =
     (let (err, w1) = cargoRepository_Store (cargo r) c w
      in (err, timeTrack ''cargo Store'' w1))"

definition timeCargoRepository_Find ::
  "timeCargoRepository \<Rightarrow> TrackingID \<Rightarrow> world \<Rightarrow> (error + Cargo) \<times> world" where
  "timeCargoRepository_Find r tid w =
     (cargoRepository_Find (cargo r) tid w, timeTrack ''cargo Find'' w)"

definition timeCargoRepository_FindAll ::
  "timeCargoRepository \<Rightarrow> world \<Rightarrow> Cargo list \<times> world" where
  "timeCargoRepository_FindAll r w =
     (cargoRepository_FindAll (cargo r) w, timeTrack ''cargo FindAll'' w)"

definition NewCargoRepository :: "string \<Rightarrow> Session \<Rightarrow> error + timeCargoRepository" where
  "NewCargoRepository name sess =
     (let r = \<lparr>db = name, session = sess\<rparr>
      in case EnsureIndex (session r) of
           Some err \<Rightarrow> Inl err
         | None \<Rightarrow> Inr \<lparr>cargo = r\<rparr>)"

definition locationRepository_Find ::
  "locationRepository \<Rightarrow> UNLocode \<Rightarrow> world \<Rightarrow> error + Location" where
  "locationRepository_Find r locode w =
     (case Query_One (session r) (\<lambda>l. l_UNLocode l = locode) (location_c w) of
        Inl err \<Rightarrow> if err = ErrNotFound then Inl location_ErrUnknown else Inl err
      | Inr l \<Rightarrow> Inr l)"

definition locationRepository_FindAll :: "locationRepository \<Rightarrow> world \<Rightarrow> Location list" where
  "locationRepository_FindAll r w =
     (case Query_All (session r) (\<lambda>l. True) (location_c w) of
        Inl err \<Rightarrow> []
      | Inr ls \<Rightarrow> ls)"

definition locationRepository_store ::
  "locationRepository \<Rightarrow> Location \<Rightarrow> world \<Rightarrow> error option \<times> world" where
  "locationRepository_store r l w =
     (let (err, docs) =
            Collection_Upsert (session r) (\<lambda>x. l_UNLocode x = l_UNLocode l) l (location_c w)
      in (err, w\<lparr>location_c := docs\<rparr>))"

record timeLocationRepository =
  location :: locationRepository

definition timeLocationRepository_Find ::
  "timeLocationRepository \<Rightarrow> UNLocode \<Rightarrow> world \<Rightarrow> (error + Location) \<times> world" where
  "timeLocationRepository_Find r locode w =
     (locationRepository_Find (location r) locode w, timeTrack ''location Find'' w)"

definition timeLocationRepository_FindAll ::
  "timeLocationRepository \<Rightarrow> world \<Rightarrow> Location list \<times> world" where
  "timeLocationRepository_FindAll r w =
     (locationRepository_FindAll (location r) w, timeTrack ''location FindAll'' w)"

definition voyageRepository_Find ::
  "voyageRepository \<Rightarrow> VoyageNumber \<Rightarrow> world \<Rightarrow> error + Voyage" where
  "voyageRepository_Find r voyageNumber w =
     (case Query_One (session r) (\<lambda>v. v_Number v = voyageNumber) (voyage_c w) of
        Inl err \<Rightarrow> if err = ErrNotFound then Inl voyage_ErrUnknown else Inl err
      | Inr v \<Rightarrow> Inr v)"

definition voyageRepository_store ::
  "voyageRepository \<Rightarrow> Voyage \<Rightarrow> world \<Rightarrow> error option \<times> world" where
  "voyageRepository_store r v w =
     (let (err, docs) =
            Collection_Upsert (session r) (\<lambda>x. v_Number x = v_Number v) v (voyage_c w)
      in (err, w\<lparr>voyage_c := docs\<rparr>))"

record timeVoyageRepository =
  voyage :: voyageRepository

definition timeVoyageRepository_Find ::
  "timeVoyageRepository \<Rightarrow> VoyageNumber \<Rightarrow> world \<Rightarrow> (error + Voyage) \<times> world" where
  "timeVoyageRepository_Find r voyageNumber w =
     (voyageRepository_Find (voyage r) voyageNumber w, timeTrack ''voyage Find'' w)"

definition handlingEventRepository_Store ::
  "handlingEventRepository \<Rightarrow> HandlingEvent \<Rightarrow> world \<Rightarrow> world" where
  "handlingEventRepository_Store r e w =
     (let (err, docs) = Collection_Insert (session r) e (handling_event_c w)
      in w\<lparr>handling_event_c := docs\<rparr>)"

definition handlingEventRepository_QueryHandlingHistory ::
  "handlingEventRepository \<Rightarrow> TrackingID \<Rightarrow> world \<Rightarrow> HandlingHistory" where
  "handlingEventRepository_QueryHandlingHistory r tid w =
     (let result =
            (case Query_All (session r) (\<lambda>e. he_TrackingID e = tid) (handling_event_c w) of
               Inl err \<Rightarrow> []
             | Inr es \<Rightarrow> es)
      in \<lparr>HandlingEvents = result\<rparr>)"

record timeHandlingEventRepository =
  event :: handlingEventRepository

definition timeHandlingEventRepository_Store ::
  "timeHandlingEventRepository \<Rightarrow> HandlingEvent \<Rightarrow> world \<Rightarrow> world" where
  "timeHandlingEventRepository_Store r e w =
     timeTrack ''event Store'' (handlingEventRepository_Store (event r) e w)"

definition timeHandlingEventRepository_QueryHandlingHistory ::
  "timeHandlingEventRepository \<Rightarrow> TrackingID \<Rightarrow> world \<Rightarrow> HandlingHistory \<times> world" where
  "timeHandlingEventRepository_QueryHandlingHistory r tid w =
     (handlingEventRepository_QueryHandlingHistory (event r) tid w,
      timeTrack ''event QueryHandlingHistory'' w)"

subsection \<open>The booking service (lines 722-965)\<close>

text \<open>
  The service holds its repositories as values of the interfaces \<^verbatim>\<open>cargo.Repository\<close>
  and \<^verbatim>\<open>location.Repository\<close> (lines 774-775): records of the methods, which either
  variant of the storage package fills.  Of the service's fields only the two
  repositories are read by the methods below.
\<close>

record cargo_Repository =
  Repository_Store :: "Cargo \<Rightarrow> world \<Rightarrow> error option \<times> world"
  Repository_Find :: "TrackingID \<Rightarrow> world \<Rightarrow> (error + Cargo) \<times> world"
  Repository_Remove :: "Cargo \<Rightarrow> world \<Rightarrow> error option \<times> world"
  Repository_FindAll :: "world \<Rightarrow> Cargo list \<times> world"

record location_Repository =
  Locations_Find :: "UNLocode \<Rightarrow> world \<Rightarrow> (error + Location) \<times> world"
  Locations_FindAll :: "world \<Rightarrow> Location list \<times> world"

definition timeCargoRepository_methods :: "timeCargoRepository \<Rightarrow> cargo_Repository" where
  "timeCargoRepository_methods r =
     \<lparr>Repository_Store = timeCargoRepository_Store r,
      Repository_Find = timeCargoRepository_Find r,
      Repository_Remove = timeCargoRepository_Remove r,
      Repository_FindAll = timeCargoRepository_FindAll r\<rparr>"

definition timeLocationRepository_methods :: "timeLocationRepository \<Rightarrow> location_Repository" where
  "timeLocationRepository_methods r =
     \<lparr>Locations_Find = timeLocationRepository_Find r,
      Locations_FindAll = timeLocationRepository_FindAll r\<rparr>"

definition padded_cargoRepository_methods :: "cargoRepository \<Rightarrow> cargo_Repository" where
  "padded_cargoRepository_methods r =
     \<lparr>Repository_Store = padded_cargoRepository_Store r,
      Repository_Find = padded_cargoRepository_Find r,
      Repository_Remove = padded_cargoRepository_Remove r,
      Repository_FindAll = padded_cargoRepository_FindAll r\<rparr>"

definition padded_locationRepository_methods :: "locationRepository \<Rightarrow> location_Repository" where
  "padded_locationRepository_methods r =
     \<lparr>Locations_Find = padded_locationRepository_Find r,
      Locations_FindAll = padded_locationRepository_FindAll r\<rparr>"

record service =
  cargos :: cargo_Repository
  locations :: location_Repository

text \<open>
  \<^verbatim>\<open>AssignCargoToRoute\<close> (line 781).  The cargo that \<^verbatim>\<open>Find\<close> returns is a fresh
  struct; \<^verbatim>\<open>AssignToRoute\<close> changes it in place and \<^verbatim>\<open>Store\<close> writes it back.
\<close>

definition AssignCargoToRoute ::
  "(Cargo \<Rightarrow> Delivery) \<Rightarrow> service \<Rightarrow> TrackingID \<Rightarrow> Itinerary \<Rightarrow> world \<Rightarrow> error option \<times> world" where
  "AssignCargoToRoute derive s tid itinerary w =
     (if tid = '''' \<or> length (Legs itinerary) = 0 then (Some ErrInvalidArgument, w)
      else
        (case Repository_Find (cargos s) tid w of
           (Inl err, w1) \<Rightarrow> (Some err, println (UnableToFind tid err) w1)
         | (Inr c, w1) \<Rightarrow> Repository_Store (cargos s) (AssignToRoute derive c itinerary) w1))"

text \<open>
  The route specification that \<^verbatim>\<open>ChangeDestination\<close> builds (lines 865-869): its origin
  is the cargo's own \<^verbatim>\<open>Origin\<close>, its destination that of the location found, its
  deadline that of the cargo's route specification.
\<close>

definition newRoute :: "Cargo \<Rightarrow> Location \<Rightarrow> RouteSpecification" where
  "newRoute c l =
     \<lparr>rs_Origin = c_Origin c, rs_Destination = l_UNLocode l,
      rs_ArrivalDeadline = rs_ArrivalDeadline (c_RouteSpecification c)\<rparr>"

text \<open>
  \<^verbatim>\<open>ChangeDestination\<close> (line 850).  The call of \<^verbatim>\<open>SpecifyNewRoute\<close> (line 865) is a
  statement: whatever the method returns is not used, and the cargo as the method
  leaves it is stored.
\<close>

definition ChangeDestination ::
  "(Cargo \<Rightarrow> Delivery) \<Rightarrow> service \<Rightarrow> TrackingID \<Rightarrow> UNLocode \<Rightarrow> world \<Rightarrow> error option \<times> world" where
  "ChangeDestination derive s tid destination w =
     (if tid = '''' \<or> destination = '''' then (Some ErrInvalidArgument, w)
      else
        (case Repository_Find (cargos s) tid w of
           (Inl err, w1) \<Rightarrow> (Some err, w1)
         | (Inr c, w1) \<Rightarrow>
             (case Locations_Find (locations s) destination w1 of
                (Inl err, w2) \<Rightarrow> (Some err, w2)
              | (Inr l, w2) \<Rightarrow>
                  (let (unused, c1) =
                         SpecifyNewRoute derive c (newRoute c l)
                   in (case Repository_Store (cargos s) c1 w2 of
                         (Some err, w3) \<Rightarrow> (Some err, w3)
                       | (None, w3) \<Rightarrow> (None, w3))))))"

text \<open>
  The service as \<^verbatim>\<open>NewService\<close> (line 912) builds it from the repositories of the
  time-instrumented variant, and from those of the padded variant.
\<close>

definition timed_service :: "timeCargoRepository \<Rightarrow> timeLocationRepository \<Rightarrow> service" where
  "timed_service rc rl =
     \<lparr>cargos = timeCargoRepository_methods rc, locations = timeLocationRepository_methods rl\<rparr>"

definition padded_service :: "cargoRepository \<Rightarrow> locationRepository \<Rightarrow> service" where
  "padded_service rc rl =
     \<lparr>cargos = padded_cargoRepository_methods rc, locations = padded_locationRepository_methods rl\<rparr>"

subsection \<open>The specification's words\<close>

text \<open>
  The ordering of a handling history in section 3 of the specification: by completion
  time ascending, ties broken by registration time ascending.
\<close>

definition ordered_by_completion :: "HandlingEvent list \<Rightarrow> bool" where
  "ordered_by_completion es =
     sorted_wrt
       (\<lambda>a b. he_CompletionTime a < he_CompletionTime b \<or>
              (he_CompletionTime a = he_CompletionTime b \<and>
               he_RegistrationTime a \<le> he_RegistrationTime b))
       es"

subsection \<open>Example data\<close>

definition working_repository :: repository where
  "working_repository = \<lparr>db = ''goddd'', session = \<lparr>fault = None\<rparr>\<rparr>"

definition broken_repository :: repository where
  "broken_repository = \<lparr>db = ''goddd'', session = \<lparr>fault = Some ''no reachable servers''\<rparr>\<rparr>"

definition empty_world :: world where
  "empty_world =
     \<lparr>cargo_c = [], location_c = [], voyage_c = [], handling_event_c = [],
      GARBAGE_CARGO = \<lparr>g_Garbage = ''''\<rparr>, stdout = []\<rparr>"

definition example_cargo :: Cargo where
  "example_cargo =
     \<lparr>c_TrackingID = ''ABC123'', c_Origin = ''SESTO'',
      c_RouteSpecification =
        \<lparr>rs_Origin = ''SESTO'', rs_Destination = ''CNHKG'', rs_ArrivalDeadline = 1000\<rparr>,
      c_Itinerary = \<lparr>Legs = []\<rparr>, c_Delivery = zero_Delivery\<rparr>"

definition example_itinerary :: Itinerary where
  "example_itinerary =
     \<lparr>Legs = [\<lparr>VoyageNumber = ''V100'', LoadLocation = ''SESTO'', UnloadLocation = ''DEHAM'',
               LoadTime = 10, UnloadTime = 20\<rparr>]\<rparr>"

definition example_world :: world where
  "example_world =
     empty_world
       \<lparr>cargo_c := [CargoDoc example_cargo],
        location_c := [\<lparr>l_UNLocode = ''SESTO'', l_Name = ''Stockholm''\<rparr>,
                       \<lparr>l_UNLocode = ''DEHAM'', l_Name = ''Hamburg''\<rparr>],
        voyage_c := [\<lparr>v_Number = ''V100''\<rparr>]\<rparr>"

definition example_service :: service where
  "example_service = timed_service \<lparr>cargo = working_repository\<rparr> \<lparr>location = working_repository\<rparr>"

definition unloaded_late :: HandlingEvent where
  "unloaded_late =
     \<lparr>he_TrackingID = ''ABC123'', he_Type = Unload, he_Location = ''DEHAM'',
      he_Voyage = Some ''V100'', he_CompletionTime = 20, he_RegistrationTime = 21\<rparr>"

definition loaded_early :: HandlingEvent where
  "loaded_early =
     \<lparr>he_TrackingID = ''ABC123'', he_Type = Load, he_Location = ''SESTO'',
      he_Voyage = Some ''V100'', he_CompletionTime = 10, he_RegistrationTime = 22\<rparr>"

text \<open>The example cargo with another destination and deadline, under the same identity.\<close>

definition replacement_cargo :: Cargo where
  "replacement_cargo =
     example_cargo\<lparr>c_RouteSpecification :=
       \<lparr>rs_Origin = ''SESTO'', rs_Destination = ''DEHAM'', rs_ArrivalDeadline = 2000\<rparr>\<rparr>"



section \<open>Properties\<close>

subsection \<open>The driver's operations\<close>

lemma update_first_idem:
  "sel d \<Longrightarrow> update_first sel d (update_first sel d xs) = update_first sel d xs"
  by (induction xs) auto

lemma list_ex_update_first:
  "sel d \<Longrightarrow> list_ex sel xs \<Longrightarrow> list_ex sel (update_first sel d xs)"
  by (induction xs) auto

lemma length_update_first: "length (update_first sel d xs) = length xs"
  by (induction xs) auto

lemma update_first_append_new:
  "\<not> list_ex sel xs \<Longrightarrow> sel d \<Longrightarrow> update_first sel d (xs @ [d]) = xs @ [d]"
  by (induction xs) auto

lemma find_update_first:
  "sel d \<Longrightarrow> list_ex sel xs \<Longrightarrow> find sel (update_first sel d xs) = Some d"
  by (induction xs) auto

lemma find_append_new:
  "\<not> list_ex sel xs \<Longrightarrow> sel d \<Longrightarrow> find sel (xs @ [d]) = Some d"
  by (induction xs) auto

lemma find_append_other: "\<not> sel d \<Longrightarrow> find sel (xs @ [d]) = find sel xs"
  by (induction xs) auto

lemma find_None_list_ex: "find sel xs = None \<longleftrightarrow> \<not> list_ex sel xs"
  by (induction xs) auto

lemma find_Some_list_ex: "find sel ys = Some d \<Longrightarrow> list_ex sel ys"
  by (induction ys) (auto split: if_splits)

lemma update_first_same: "find sel ys = Some d \<Longrightarrow> update_first sel d ys = ys"
  by (induction ys) (auto split: if_splits)

lemma filter_update_first:
  "sel d \<Longrightarrow> length (filter sel (update_first sel d xs)) = length (filter sel xs)"
  by (induction xs) auto

text \<open>An update under one selector is invisible to a selector that excludes it.\<close>

lemma find_update_first_other:
  "\<not> sel d \<Longrightarrow> (\<And>x. sel' x \<Longrightarrow> \<not> sel x) \<Longrightarrow>
   find sel (update_first sel' d xs) = find sel xs"
  by (induction xs) auto

lemma filter_update_first_other:
  "\<not> sel d \<Longrightarrow> (\<And>x. sel' x \<Longrightarrow> \<not> sel x) \<Longrightarrow>
   filter sel (update_first sel' d xs) = filter sel xs"
  by (induction xs) auto

lemma Upsert_idem:
  "sel d \<Longrightarrow>
   Collection_Upsert s sel d (snd (Collection_Upsert s sel d docs)) = Collection_Upsert s sel d docs"
  by (auto simp: Collection_Upsert_def update_first_idem list_ex_update_first
        update_first_append_new split: option.splits)

lemma Upsert_same: "find sel ys = Some d \<Longrightarrow> snd (Collection_Upsert s sel d ys) = ys"
  by (simp add: Collection_Upsert_def update_first_same find_Some_list_ex split: option.splits)

lemma Upsert_find:
  "fault s = None \<Longrightarrow> sel d \<Longrightarrow> find sel (snd (Collection_Upsert s sel d docs)) = Some d"
  by (simp add: Collection_Upsert_def find_update_first find_append_new)

lemma Upsert_fault:
  "fault s = Some m \<Longrightarrow> Collection_Upsert s sel d docs = (Some (DriverError m), docs)"
  by (simp add: Collection_Upsert_def)

lemma Upsert_fst_None: "fst (Collection_Upsert s sel d docs) = None \<longleftrightarrow> fault s = None"
  by (simp add: Collection_Upsert_def split: option.splits)

lemma Upsert_fst_any:
  "fst (Collection_Upsert s sel d docs) = fst (Collection_Upsert s sel d docs')"
  by (simp add: Collection_Upsert_def split: option.splits)

lemma Upsert_length_present:
  "list_ex sel docs \<Longrightarrow> length (snd (Collection_Upsert s sel d docs)) = length docs"
  by (simp add: Collection_Upsert_def length_update_first split: option.splits)

lemma Upsert_filter_present:
  "sel d \<Longrightarrow> list_ex sel docs \<Longrightarrow>
   length (filter sel (snd (Collection_Upsert s sel d docs))) = length (filter sel docs)"
  by (simp add: Collection_Upsert_def filter_update_first split: option.splits)

subsection \<open>Cargo documents and filler records\<close>

lemma sel_g_not_sel: "sel_trackingid_g a x \<Longrightarrow> \<not> sel_trackingid b x"
  by (cases x) auto

lemma Upsert_garbage_find:
  "find (sel_trackingid a) (snd (Collection_Upsert s (sel_trackingid_g b) (GarbageDoc b g) docs))
     = find (sel_trackingid a) docs"
  by (auto simp: Collection_Upsert_def find_update_first_other find_append_other sel_g_not_sel
        split: option.splits)

lemma Upsert_garbage_filter:
  "filter (sel_trackingid a) (snd (Collection_Upsert s (sel_trackingid_g b) (GarbageDoc b g) docs))
     = filter (sel_trackingid a) docs"
  by (auto simp: Collection_Upsert_def filter_update_first_other sel_g_not_sel
        split: option.splits)

lemma Upsert_cargo_idem:
  "Collection_Upsert s (sel_trackingid (c_TrackingID c)) (CargoDoc c)
     (snd (Collection_Upsert s (sel_trackingid (c_TrackingID c)) (CargoDoc c) docs))
   = Collection_Upsert s (sel_trackingid (c_TrackingID c)) (CargoDoc c) docs"
  by (rule Upsert_idem) simp

lemma Upsert_garbage_idem:
  "Collection_Upsert s (sel_trackingid_g t) (GarbageDoc t g)
     (snd (Collection_Upsert s (sel_trackingid_g t) (GarbageDoc t g) docs))
   = Collection_Upsert s (sel_trackingid_g t) (GarbageDoc t g) docs"
  by (rule Upsert_idem) simp

lemma Store_unfold:
  "cargoRepository_Store r c w =
     (fst (Collection_Upsert (session r) (sel_trackingid (c_TrackingID c)) (CargoDoc c) (cargo_c w)),
      w\<lparr>cargo_c :=
          snd (Collection_Upsert (session r) (sel_trackingid (c_TrackingID c)) (CargoDoc c) (cargo_c w))\<rparr>)"
  by (simp add: cargoRepository_Store_def case_prod_beta)

lemma padded_Store_unfold:
  "padded_cargoRepository_Store r c w =
     (fst (Collection_Upsert (session r) (sel_trackingid (c_TrackingID c)) (CargoDoc c) (cargo_c w)),
      timed ''Storing a cargo''
        (w\<lparr>cargo_c :=
            snd (Collection_Upsert (session r) (sel_trackingid_g (c_TrackingID c))
                  (GarbageDoc (c_TrackingID c) (g_Garbage (GARBAGE_CARGO w)))
                  (snd (Collection_Upsert (session r) (sel_trackingid (c_TrackingID c))
                         (CargoDoc c) (cargo_c w))))\<rparr>))"
  by (simp add: padded_cargoRepository_Store_def case_prod_beta)

lemma Store_twice:
  "cargoRepository_Store r c (snd (cargoRepository_Store r c w)) = cargoRepository_Store r c w"
  by (simp add: Store_unfold Upsert_cargo_idem)

lemma padded_docs_twice:
  "snd (Collection_Upsert s (sel_trackingid_g (c_TrackingID c)) (GarbageDoc (c_TrackingID c) g)
     (snd (Collection_Upsert s (sel_trackingid (c_TrackingID c)) (CargoDoc c)
       (snd (Collection_Upsert s (sel_trackingid_g (c_TrackingID c)) (GarbageDoc (c_TrackingID c) g)
         (snd (Collection_Upsert s (sel_trackingid (c_TrackingID c)) (CargoDoc c) docs)))))))
   = snd (Collection_Upsert s (sel_trackingid_g (c_TrackingID c)) (GarbageDoc (c_TrackingID c) g)
       (snd (Collection_Upsert s (sel_trackingid (c_TrackingID c)) (CargoDoc c) docs)))"
proof (cases "fault s")
  case (Some m)
  then show ?thesis by (simp add: Upsert_fault)
next
  case None
  let ?X = "snd (Collection_Upsert s (sel_trackingid (c_TrackingID c)) (CargoDoc c) docs)"
  let ?Y = "snd (Collection_Upsert s (sel_trackingid_g (c_TrackingID c))
                  (GarbageDoc (c_TrackingID c) g) ?X)"
  have "find (sel_trackingid (c_TrackingID c)) ?X = Some (CargoDoc c)"
    using None by (simp add: Upsert_find)
  then have "find (sel_trackingid (c_TrackingID c)) ?Y = Some (CargoDoc c)"
    by (simp add: Upsert_garbage_find)
  then have "snd (Collection_Upsert s (sel_trackingid (c_TrackingID c)) (CargoDoc c) ?Y) = ?Y"
    by (rule Upsert_same)
  then show ?thesis
    by (simp add: Upsert_garbage_idem)
qed

lemma padded_Store_twice:
  "fst (padded_cargoRepository_Store r c (snd (padded_cargoRepository_Store r c w)))
     = fst (padded_cargoRepository_Store r c w) \<and>
   (snd (padded_cargoRepository_Store r c (snd (padded_cargoRepository_Store r c w))))\<lparr>stdout := out\<rparr>
     = (snd (padded_cargoRepository_Store r c w))\<lparr>stdout := out\<rparr>"
proof -
  have "fst (Collection_Upsert (session r) (sel_trackingid (c_TrackingID c)) (CargoDoc c) a)
      = fst (Collection_Upsert (session r) (sel_trackingid (c_TrackingID c)) (CargoDoc c) b)" for a b
    by (rule Upsert_fst_any)
  then show ?thesis
    by (simp add: padded_Store_unfold timed_def println_def padded_docs_twice)
qed

lemma Find_after_Store:
  "fst (cargoRepository_Store r c w) = None \<Longrightarrow>
   cargoRepository_Find r (c_TrackingID c) (snd (cargoRepository_Store r c w)) = Inr c"
  by (simp add: Store_unfold Upsert_fst_None cargoRepository_Find_def Query_One_def Upsert_find)

lemma padded_Find_after_Store:
  "fst (padded_cargoRepository_Store r c w) = None \<Longrightarrow>
   fst (padded_cargoRepository_Find r (c_TrackingID c) (snd (padded_cargoRepository_Store r c w)))
     = Inr c"
  by (simp add: padded_Store_unfold Upsert_fst_None padded_cargoRepository_Find_def Query_One_def
        Upsert_find Upsert_garbage_find timed_def println_def)

subsection \<open>C3: Store is an idempotent upsert\<close>

text \<open>An upsert under a present key rewrites one position, which held a record of that key.\<close>

lemma update_first_position:
  "list_ex sel xs \<Longrightarrow> \<exists>i<length xs. sel (xs ! i) \<and> update_first sel d xs = xs[i := d]"
proof (induction xs)
  case Nil
  then show ?case by simp
next
  case (Cons x xs)
  show ?case
  proof (cases "sel x")
    case True
    then have "sel ((x # xs) ! 0) \<and> update_first sel d (x # xs) = (x # xs)[0 := d]"
      by simp
    then show ?thesis by blast
  next
    case False
    with Cons obtain i where "i < length xs" "sel (xs ! i)" "update_first sel d xs = xs[i := d]"
      by auto
    with False have "Suc i < length (x # xs) \<and> sel ((x # xs) ! Suc i) \<and>
        update_first sel d (x # xs) = (x # xs)[Suc i := d]"
      by simp
    then show ?thesis by blast
  qed
qed

lemma find_update_first_other_key:
  "t \<noteq> c_TrackingID c \<Longrightarrow>
   find (sel_trackingid t) (update_first (sel_trackingid (c_TrackingID c)) (CargoDoc c) xs)
     = find (sel_trackingid t) xs"
proof (induction xs)
  case Nil
  then show ?case by simp
next
  case (Cons x xs)
  then show ?case by (cases x) auto
qed

lemma Upsert_cargo_find_other:
  "t \<noteq> c_TrackingID c \<Longrightarrow>
   find (sel_trackingid t)
       (snd (Collection_Upsert s (sel_trackingid (c_TrackingID c)) (CargoDoc c) docs))
     = find (sel_trackingid t) docs"
  by (simp add: Collection_Upsert_def find_update_first_other_key find_append_other
        split: option.splits)

lemma Find_cong_find:
  assumes "find (sel_trackingid t) (cargo_c w) = find (sel_trackingid t) (cargo_c w')"
  shows "cargoRepository_Find r t w = cargoRepository_Find r t w'"
    and "fst (padded_cargoRepository_Find r t w) = fst (padded_cargoRepository_Find r t w')"
  using assms
  by (simp_all add: cargoRepository_Find_def padded_cargoRepository_Find_def Query_One_def
        split: option.splits)

lemma Store_keeps_others:
  assumes "t \<noteq> c_TrackingID c"
  shows "cargoRepository_Find r t (snd (cargoRepository_Store r c w)) = cargoRepository_Find r t w"
    and "fst (padded_cargoRepository_Find r t (snd (padded_cargoRepository_Store r c w)))
           = fst (padded_cargoRepository_Find r t w)"
proof -
  show "cargoRepository_Find r t (snd (cargoRepository_Store r c w)) = cargoRepository_Find r t w"
    using assms by (intro Find_cong_find) (simp add: Store_unfold Upsert_cargo_find_other)
  show "fst (padded_cargoRepository_Find r t (snd (padded_cargoRepository_Store r c w)))
           = fst (padded_cargoRepository_Find r t w)"
    using assms
    by (intro Find_cong_find)
       (simp add: padded_Store_unfold timed_def println_def Upsert_garbage_find
          Upsert_cargo_find_other)
qed

lemma Store_working_session:
  assumes "fault (session r) = None"
  shows "fst (cargoRepository_Store r c w) = None"
    and "fst (padded_cargoRepository_Store r c w) = None"
    and "cargoRepository_Find r (c_TrackingID c) (snd (cargoRepository_Store r c w)) = Inr c"
    and "fst (padded_cargoRepository_Find r (c_TrackingID c)
                (snd (padded_cargoRepository_Store r c w))) = Inr c"
  using assms Find_after_Store [of r c w] padded_Find_after_Store [of r c w]
  by (simp_all add: Store_unfold padded_Store_unfold Upsert_fst_None)

lemma Store_present_position:
  assumes "fault (session r) = None" "list_ex (sel_trackingid (c_TrackingID c)) (cargo_c w)"
  shows "\<exists>i<length (cargo_c w).
           sel_trackingid (c_TrackingID c) (cargo_c w ! i) \<and>
           cargo_c (snd (cargoRepository_Store r c w)) = (cargo_c w)[i := CargoDoc c]"
  using assms update_first_position [of "sel_trackingid (c_TrackingID c)" "cargo_c w" "CargoDoc c"]
  by (simp add: Store_unfold Collection_Upsert_def)

lemma Store_absent_appends:
  assumes "fault (session r) = None" "\<not> list_ex (sel_trackingid (c_TrackingID c)) (cargo_c w)"
  shows "cargo_c (snd (cargoRepository_Store r c w)) = cargo_c w @ [CargoDoc c]"
  using assms by (simp add: Store_unfold Collection_Upsert_def)

lemma Store_failing_session:
  assumes "fault (session r) = Some m"
  shows "cargoRepository_Store r c w = (Some (DriverError m), w)"
    and "fst (padded_cargoRepository_Store r c w) = Some (DriverError m)"
    and "cargo_c (snd (padded_cargoRepository_Store r c w)) = cargo_c w"
  using assms
  by (simp_all add: Store_unfold padded_Store_unfold Upsert_fault timed_def println_def)

lemma Store_present_counts:
  assumes "list_ex (sel_trackingid (c_TrackingID c)) (cargo_c w)"
  shows "length (cargo_c (snd (cargoRepository_Store r c w))) = length (cargo_c w)"
    and "length (filter (sel_trackingid (c_TrackingID c)) (cargo_c (snd (cargoRepository_Store r c w))))
           = length (filter (sel_trackingid (c_TrackingID c)) (cargo_c w))"
    and "length (filter (sel_trackingid (c_TrackingID c))
                   (cargo_c (snd (padded_cargoRepository_Store r c w))))
           = length (filter (sel_trackingid (c_TrackingID c)) (cargo_c w))"
  using assms
  by (simp_all add: Store_unfold padded_Store_unfold timed_def println_def
        Upsert_length_present Upsert_filter_present Upsert_garbage_filter)

text \<open>
  Claim C3.  The cargo store's \<^verbatim>\<open>Store\<close> is an idempotent upsert keyed by tracking
  identity, in both variants of the storage package.

  \<^item> Storing a cargo twice gives the error and the state that storing it once gives (in
    the padded variant up to the lines printed, one per call).
  \<^item> With a working session \<^verbatim>\<open>Store\<close> returns no error, and \<^verbatim>\<open>Find\<close> under the cargo's
    tracking identity then returns the cargo stored.  When the identity was present,
    the collection is the old one with the cargo written at one position, which held
    a record of that identity; when it was absent, the cargo is added at the end.
  \<^item> When the identity was present, the collection keeps its length and its number of
    records under that identity (the padded variant its number of cargo records: it
    adds the filler record where there was none).
  \<^item> What \<^verbatim>\<open>Find\<close> returns under any other identity is what it returned before.
  \<^item> With a failing session \<^verbatim>\<open>Store\<close> returns the driver's error and writes nothing.
\<close>

theorem Store_idempotent_upsert:
  "cargoRepository_Store r c (snd (cargoRepository_Store r c w)) = cargoRepository_Store r c w \<and>
   fst (padded_cargoRepository_Store r c (snd (padded_cargoRepository_Store r c w)))
     = fst (padded_cargoRepository_Store r c w) \<and>
   (snd (padded_cargoRepository_Store r c (snd (padded_cargoRepository_Store r c w))))\<lparr>stdout := out\<rparr>
     = (snd (padded_cargoRepository_Store r c w))\<lparr>stdout := out\<rparr> \<and>
   (fault (session r) = None \<longrightarrow>
      fst (cargoRepository_Store r c w) = None \<and>
      fst (padded_cargoRepository_Store r c w) = None \<and>
      cargoRepository_Find r (c_TrackingID c) (snd (cargoRepository_Store r c w)) = Inr c \<and>
      fst (padded_cargoRepository_Find r (c_TrackingID c)
             (snd (padded_cargoRepository_Store r c w))) = Inr c \<and>
      (list_ex (sel_trackingid (c_TrackingID c)) (cargo_c w) \<longrightarrow>
         (\<exists>i<length (cargo_c w).
            sel_trackingid (c_TrackingID c) (cargo_c w ! i) \<and>
            cargo_c (snd (cargoRepository_Store r c w)) = (cargo_c w)[i := CargoDoc c])) \<and>
      (\<not> list_ex (sel_trackingid (c_TrackingID c)) (cargo_c w) \<longrightarrow>
         cargo_c (snd (cargoRepository_Store r c w)) = cargo_c w @ [CargoDoc c])) \<and>
   (list_ex (sel_trackingid (c_TrackingID c)) (cargo_c w) \<longrightarrow>
      length (cargo_c (snd (cargoRepository_Store r c w))) = length (cargo_c w) \<and>
      length (filter (sel_trackingid (c_TrackingID c)) (cargo_c (snd (cargoRepository_Store r c w))))
        = length (filter (sel_trackingid (c_TrackingID c)) (cargo_c w)) \<and>
      length (filter (sel_trackingid (c_TrackingID c))
                (cargo_c (snd (padded_cargoRepository_Store r c w))))
        = length (filter (sel_trackingid (c_TrackingID c)) (cargo_c w))) \<and>
   (t \<noteq> c_TrackingID c \<longrightarrow>
      cargoRepository_Find r t (snd (cargoRepository_Store r c w)) = cargoRepository_Find r t w \<and>
      fst (padded_cargoRepository_Find r t (snd (padded_cargoRepository_Store r c w)))
        = fst (padded_cargoRepository_Find r t w)) \<and>
   (\<forall>m. fault (session r) = Some m \<longrightarrow>
      cargoRepository_Store r c w = (Some (DriverError m), w) \<and>
      fst (padded_cargoRepository_Store r c w) = Some (DriverError m) \<and>
      cargo_c (snd (padded_cargoRepository_Store r c w)) = cargo_c w)"
  using Store_twice [of r c w] padded_Store_twice [of r c w out]
    Store_working_session [of r c w] Store_present_position [of r c w]
    Store_absent_appends [of r c w] Store_present_counts [of c w r]
    Store_keeps_others [of t c r w] Store_failing_session [of r _ c w]
  by blast

text \<open>
  The theorem at the example world, which holds the example cargo under \<^verbatim>\<open>ABC123\<close>: a
  cargo of the same identity with another destination and deadline is stored.  The
  collection then holds the new cargo in the place of the old one (and, in the padded
  variant, the filler record after it), and \<^verbatim>\<open>Find\<close> returns the new cargo.
\<close>

theorem Store_idempotent_upsert_witness:
  "fault (session working_repository) = None \<and>
   c_TrackingID replacement_cargo = ''ABC123'' \<and>
   replacement_cargo \<noteq> example_cargo \<and>
   cargo_c example_world = [CargoDoc example_cargo] \<and>
   list_ex (sel_trackingid ''ABC123'') (cargo_c example_world) \<and>
   fst (cargoRepository_Store working_repository replacement_cargo example_world) = None \<and>
   cargo_c (snd (cargoRepository_Store working_repository replacement_cargo example_world))
     = [CargoDoc replacement_cargo] \<and>
   cargoRepository_Find working_repository ''ABC123''
       (snd (cargoRepository_Store working_repository replacement_cargo example_world))
     = Inr replacement_cargo \<and>
   fst (padded_cargoRepository_Store working_repository replacement_cargo example_world) = None \<and>
   fst (padded_cargoRepository_Find working_repository ''ABC123''
          (snd (padded_cargoRepository_Store working_repository replacement_cargo example_world)))
     = Inr replacement_cargo \<and>
   length (filter (sel_trackingid ''ABC123'')
             (cargo_c (snd (padded_cargoRepository_Store working_repository replacement_cargo
                              example_world)))) = 1"
proof -
  have facts:
    "fault (session working_repository) = None"
    "c_TrackingID replacement_cargo = ''ABC123''"
    "replacement_cargo \<noteq> example_cargo"
    "cargo_c example_world = [CargoDoc example_cargo]"
    by (simp_all add: working_repository_def replacement_cargo_def example_cargo_def
          example_world_def empty_world_def)
  from Store_idempotent_upsert [of working_repository replacement_cargo example_world "[]"
      "''XYZ789''"] facts
  show ?thesis
    by (auto simp: example_cargo_def)
qed

subsection \<open>C4: what Find returns\<close>

lemma Query_One_working:
  "fault s = None \<Longrightarrow>
   Query_One s sel docs = (case find sel docs of None \<Rightarrow> Inl ErrNotFound | Some d \<Rightarrow> Inr d)"
  by (simp add: Query_One_def)

lemma Query_One_fault: "fault s = Some m \<Longrightarrow> Query_One s sel docs = Inl (DriverError m)"
  by (simp add: Query_One_def)

lemma cargo_Find_working:
  assumes "fault (session r) = None"
  shows "(cargoRepository_Find r tid w = Inl cargo_ErrUnknown)
           = (\<not> list_ex (sel_trackingid tid) (cargo_c w))"
    and "find (sel_trackingid tid) (cargo_c w) = Some (CargoDoc c) \<Longrightarrow>
           cargoRepository_Find r tid w = Inr c"
  using assms
  by (auto simp: cargoRepository_Find_def Query_One_working find_None_list_ex [symmetric]
        split: option.splits)

lemma location_Find_working:
  assumes "fault (session r) = None"
  shows "(locationRepository_Find r locode w = Inl location_ErrUnknown)
           = (\<not> list_ex (\<lambda>l. l_UNLocode l = locode) (location_c w))"
    and "find (\<lambda>l. l_UNLocode l = locode) (location_c w) = Some l \<Longrightarrow>
           locationRepository_Find r locode w = Inr l"
  using assms
  by (auto simp: locationRepository_Find_def Query_One_working find_None_list_ex [symmetric]
        split: option.splits)

lemma voyage_Find_working:
  assumes "fault (session r) = None"
  shows "(voyageRepository_Find r number w = Inl voyage_ErrUnknown)
           = (\<not> list_ex (\<lambda>v. v_Number v = number) (voyage_c w))"
    and "find (\<lambda>v. v_Number v = number) (voyage_c w) = Some v \<Longrightarrow>
           voyageRepository_Find r number w = Inr v"
  using assms
  by (auto simp: voyageRepository_Find_def Query_One_working find_None_list_ex [symmetric]
        split: option.splits)

lemma Find_fault:
  assumes "fault (session r) = Some m"
  shows "cargoRepository_Find r tid w = Inl (DriverError m)"
    and "locationRepository_Find r locode w = Inl (DriverError m)"
    and "voyageRepository_Find r number w = Inl (DriverError m)"
  using assms
  by (simp_all add: cargoRepository_Find_def locationRepository_Find_def
        voyageRepository_Find_def Query_One_fault)

lemma padded_Find_fst:
  "fst (padded_cargoRepository_Find r tid w) = cargoRepository_Find r tid w"
  "fst (padded_locationRepository_Find r locode w) = locationRepository_Find r locode w"
  "fst (padded_voyageRepository_Find r number w) = voyageRepository_Find r number w"
  by (simp_all add: padded_cargoRepository_Find_def cargoRepository_Find_def
        padded_locationRepository_Find_def locationRepository_Find_def
        padded_voyageRepository_Find_def voyageRepository_Find_def)

text \<open>
  Claim C4, as stated, at a repository whose session fails: no cargo \<^verbatim>\<open>ABC123\<close> exists
  in the empty world, and \<^verbatim>\<open>Find\<close> does not return \<^verbatim>\<open>cargo.ErrUnknown\<close> (it returns the
  driver's error, line 428); the cargo exists in the example world, and \<^verbatim>\<open>Find\<close> does not
  return it.
\<close>

theorem Find_unknown_counterexample:
  "\<not> ((cargoRepository_Find broken_repository ''ABC123'' empty_world = Inl cargo_ErrUnknown)
        = (\<not> list_ex (sel_trackingid ''ABC123'') (cargo_c empty_world))) \<and>
   list_ex (sel_trackingid ''ABC123'') (cargo_c example_world) \<and>
   cargoRepository_Find broken_repository ''ABC123'' example_world \<noteq> Inr example_cargo"
  by (simp add: cargoRepository_Find_def Query_One_def broken_repository_def empty_world_def
        example_world_def example_cargo_def)

text \<open>
  Claim C4, amended.  In both variants and for the cargo store, the location registry
  and the voyage registry: when the session works, \<^verbatim>\<open>Find\<close> returns the ErrUnknown of
  its package exactly when no record with the key exists, and returns the stored record
  (the first under the key) when one exists; when the session fails, \<^verbatim>\<open>Find\<close> returns
  the driver's error unchanged, whether or not a record exists.  The padded variant
  returns what the time-instrumented one returns.
\<close>

theorem Find_unknown_unless_driver_error:
  "(fault (session r) = None \<longrightarrow>
      ((cargoRepository_Find r tid w = Inl cargo_ErrUnknown)
         = (\<not> list_ex (sel_trackingid tid) (cargo_c w))) \<and>
      (\<forall>c. find (sel_trackingid tid) (cargo_c w) = Some (CargoDoc c) \<longrightarrow>
           cargoRepository_Find r tid w = Inr c) \<and>
      ((locationRepository_Find r locode w = Inl location_ErrUnknown)
         = (\<not> list_ex (\<lambda>l. l_UNLocode l = locode) (location_c w))) \<and>
      (\<forall>l. find (\<lambda>l. l_UNLocode l = locode) (location_c w) = Some l \<longrightarrow>
           locationRepository_Find r locode w = Inr l) \<and>
      ((voyageRepository_Find r number w = Inl voyage_ErrUnknown)
         = (\<not> list_ex (\<lambda>v. v_Number v = number) (voyage_c w))) \<and>
      (\<forall>v. find (\<lambda>v. v_Number v = number) (voyage_c w) = Some v \<longrightarrow>
           voyageRepository_Find r number w = Inr v)) \<and>
   (\<forall>m. fault (session r) = Some m \<longrightarrow>
      cargoRepository_Find r tid w = Inl (DriverError m) \<and>
      locationRepository_Find r locode w = Inl (DriverError m) \<and>
      voyageRepository_Find r number w = Inl (DriverError m)) \<and>
   fst (padded_cargoRepository_Find r tid w) = cargoRepository_Find r tid w \<and>
   fst (padded_locationRepository_Find r locode w) = locationRepository_Find r locode w \<and>
   fst (padded_voyageRepository_Find r number w) = voyageRepository_Find r number w"
  by (simp add: cargo_Find_working location_Find_working voyage_Find_working Find_fault
        padded_Find_fst)

theorem Find_unknown_unless_driver_error_witness:
  "fault (session working_repository) = None \<and>
   cargoRepository_Find working_repository ''ABC123'' example_world = Inr example_cargo \<and>
   cargoRepository_Find working_repository ''XYZ789'' example_world = Inl cargo_ErrUnknown \<and>
   locationRepository_Find working_repository ''DEHAM'' example_world
     = Inr \<lparr>l_UNLocode = ''DEHAM'', l_Name = ''Hamburg''\<rparr> \<and>
   locationRepository_Find working_repository ''CNHKG'' example_world = Inl location_ErrUnknown \<and>
   voyageRepository_Find working_repository ''V100'' example_world = Inr \<lparr>v_Number = ''V100''\<rparr> \<and>
   voyageRepository_Find working_repository ''V300'' example_world = Inl voyage_ErrUnknown \<and>
   fault (session broken_repository) = Some ''no reachable servers'' \<and>
   cargoRepository_Find broken_repository ''ABC123'' example_world
     = Inl (DriverError ''no reachable servers'')"
  using Find_unknown_unless_driver_error [of working_repository "''ABC123''" example_world
          "''DEHAM''" "''V100''"]
    Find_unknown_unless_driver_error [of working_repository "''XYZ789''" example_world
          "''CNHKG''" "''V300''"]
    Find_unknown_unless_driver_error [of broken_repository "''ABC123''" example_world
          "''DEHAM''" "''V100''"]
  by (simp add: working_repository_def broken_repository_def example_world_def empty_world_def
        example_cargo_def)

subsection \<open>C1: the order of a handling history\<close>

lemma Query_unfold:
  "HandlingEvents (handlingEventRepository_QueryHandlingHistory r tid w) =
     (if fault (session r) = None
      then filter (\<lambda>e. he_TrackingID e = tid) (handling_event_c w)
      else [])"
  by (simp add: handlingEventRepository_QueryHandlingHistory_def Query_All_def
        split: option.splits)

lemma Store_event_working:
  "fault (session r) = None \<Longrightarrow>
   handling_event_c (handlingEventRepository_Store r e w) = handling_event_c w @ [e]"
  by (simp add: handlingEventRepository_Store_def Collection_Insert_def)

lemma padded_Store_event:
  "handling_event_c (padded_handlingEventRepository_Store r e w)
     = handling_event_c (handlingEventRepository_Store r e w)"
  by (simp add: padded_handlingEventRepository_Store_def handlingEventRepository_Store_def
        timed_def println_def case_prod_beta)

lemma padded_Query_fst:
  "fst (padded_handlingEventRepository_QueryHandlingHistory r tid w)
     = handlingEventRepository_QueryHandlingHistory r tid w"
  by (simp add: padded_handlingEventRepository_QueryHandlingHistory_def
        handlingEventRepository_QueryHandlingHistory_def)

lemma padded_Query_events:
  "HandlingEvents (fst (padded_handlingEventRepository_QueryHandlingHistory r tid w)) =
     (if fault (session r) = None
      then filter (\<lambda>e. he_TrackingID e = tid) (handling_event_c w)
      else [])"
  by (simp add: padded_Query_fst Query_unfold)

text \<open>
  Claim C1, as stated, at a history whose later event was stored first: the unloading
  in Hamburg was completed at 20 and stored first, the loading in Stockholm was
  completed at 10 and stored second.  The history queried is not ordered by completion
  time.
\<close>

theorem QueryHandlingHistory_order_counterexample:
  "\<not> ordered_by_completion
        (HandlingEvents
           (handlingEventRepository_QueryHandlingHistory working_repository ''ABC123''
              (handlingEventRepository_Store working_repository loaded_early
                 (handlingEventRepository_Store working_repository unloaded_late empty_world))))"
  by (simp add: ordered_by_completion_def Query_unfold Store_event_working
        working_repository_def empty_world_def handlingEventRepository_Store_def
        Collection_Insert_def loaded_early_def unloaded_late_def)

text \<open>
  Claim C1, amended.  For every tracking identity, \<^verbatim>\<open>QueryHandlingHistory\<close> returns
  exactly the handling events stored under that identity, in the order in which they
  were stored: the query selects on \<^verbatim>\<open>trackingid\<close> and sorts by nothing, and \<^verbatim>\<open>Store\<close>
  appends.  A query whose session fails returns the empty history, since the error is
  dropped (lines 341, 706).  Both variants return the same history.
\<close>

theorem QueryHandlingHistory_stored_order:
  "HandlingEvents (handlingEventRepository_QueryHandlingHistory r tid w) =
     (if fault (session r) = None
      then filter (\<lambda>e. he_TrackingID e = tid) (handling_event_c w)
      else []) \<and>
   fst (padded_handlingEventRepository_QueryHandlingHistory r tid w)
     = handlingEventRepository_QueryHandlingHistory r tid w \<and>
   (fault (session r) = None \<longrightarrow>
      HandlingEvents (handlingEventRepository_QueryHandlingHistory r tid
                        (handlingEventRepository_Store r e w))
        = HandlingEvents (handlingEventRepository_QueryHandlingHistory r tid w)
            @ (if he_TrackingID e = tid then [e] else []) \<and>
      HandlingEvents (fst (padded_handlingEventRepository_QueryHandlingHistory r tid
                             (padded_handlingEventRepository_Store r e w)))
        = HandlingEvents (fst (padded_handlingEventRepository_QueryHandlingHistory r tid w))
            @ (if he_TrackingID e = tid then [e] else []))"
  by (simp add: Query_unfold padded_Query_events padded_Query_fst padded_Store_event
        Store_event_working)

theorem QueryHandlingHistory_stored_order_witness:
  "fault (session working_repository) = None \<and>
   HandlingEvents
     (handlingEventRepository_QueryHandlingHistory working_repository ''ABC123''
        (handlingEventRepository_Store working_repository loaded_early
           (handlingEventRepository_Store working_repository unloaded_late empty_world)))
     = [unloaded_late, loaded_early]"
  using QueryHandlingHistory_stored_order [of working_repository "''ABC123''"
          "handlingEventRepository_Store working_repository unloaded_late empty_world"
          loaded_early]
    QueryHandlingHistory_stored_order [of working_repository "''ABC123''" empty_world
          unloaded_late]
  by (simp add: working_repository_def empty_world_def loaded_early_def unloaded_late_def)

subsection \<open>The booking service on the MongoDB repositories\<close>

text \<open>Printing changes no collection, so no repository method sees it.\<close>

lemma println_fields:
  "cargo_c (println l w) = cargo_c w"
  "location_c (println l w) = location_c w"
  "GARBAGE_CARGO (println l w) = GARBAGE_CARGO w"
  by (simp_all add: println_def)

lemma Find_println:
  "cargoRepository_Find r tid (println l w) = cargoRepository_Find r tid w"
  "locationRepository_Find r locode (println l w) = locationRepository_Find r locode w"
  by (simp_all add: cargoRepository_Find_def locationRepository_Find_def println_fields)

lemma Store_println:
  "fst (cargoRepository_Store r c (println l w)) = fst (cargoRepository_Store r c w)"
  "cargo_c (snd (cargoRepository_Store r c (println l w)))
     = cargo_c (snd (cargoRepository_Store r c w))"
  by (simp_all add: Store_unfold println_fields)

lemma padded_Store_println:
  "fst (padded_cargoRepository_Store r c (println l w)) = fst (padded_cargoRepository_Store r c w)"
  "cargo_c (snd (padded_cargoRepository_Store r c (println l w)))
     = cargo_c (snd (padded_cargoRepository_Store r c w))"
  by (simp_all add: padded_Store_unfold println_fields timed_def)

lemma Find_cong_docs:
  "cargo_c w = cargo_c w' \<Longrightarrow> cargoRepository_Find r tid w = cargoRepository_Find r tid w'"
  by (simp add: cargoRepository_Find_def)

lemma padded_Store_docs:
  "cargo_c (snd (padded_cargoRepository_Store r c w))
     = snd (Collection_Upsert (session r) (sel_trackingid_g (c_TrackingID c))
              (GarbageDoc (c_TrackingID c) (g_Garbage (GARBAGE_CARGO w)))
              (cargo_c (snd (cargoRepository_Store r c w))))"
  by (simp add: padded_Store_unfold Store_unfold timed_def println_fields)

lemma padded_Store_fst:
  "fst (padded_cargoRepository_Store r c w) = fst (cargoRepository_Store r c w)"
  by (simp add: padded_Store_unfold Store_unfold)

text \<open>What \<^verbatim>\<open>Find\<close> returns is a cargo stored under the identity asked for.\<close>

lemma Find_Inr_TrackingID:
  "cargoRepository_Find r tid w = Inr c \<Longrightarrow> c_TrackingID c = tid"
proof -
  assume a: "cargoRepository_Find r tid w = Inr c"
  then obtain d where d: "find (sel_trackingid tid) (cargo_c w) = Some d" "decode_Cargo d = c"
    by (auto simp: cargoRepository_Find_def Query_One_def split: option.splits if_splits)
  from d(1) have "sel_trackingid tid d"
    by (auto simp: find_Some_iff)
  with d(2) show ?thesis
    by (cases d) auto
qed

lemma Find_Inr_working: "cargoRepository_Find r tid w = Inr c \<Longrightarrow> fault (session r) = None"
  by (auto simp: cargoRepository_Find_def Query_One_def split: option.splits if_splits)

lemma Find_Inl_cases:
  "cargoRepository_Find r tid w = Inl err \<Longrightarrow> err = cargo_ErrUnknown \<or> (\<exists>m. err = DriverError m)"
  by (auto simp: cargoRepository_Find_def Query_One_def split: option.splits if_splits)

lemma location_Find_Inl_cases:
  "locationRepository_Find r k w = Inl err \<Longrightarrow>
   err = location_ErrUnknown \<or> (\<exists>m. err = DriverError m)"
  by (auto simp: locationRepository_Find_def Query_One_def split: option.splits if_splits)

lemma Store_error_cases:
  "fst (cargoRepository_Store r c w) = Some err \<Longrightarrow> \<exists>m. err = DriverError m"
  by (auto simp: Store_unfold Collection_Upsert_def split: option.splits)

lemma Find_present:
  "fault (session r) = None \<Longrightarrow> find (sel_trackingid tid) (cargo_c w) = Some (CargoDoc c) \<Longrightarrow>
   cargoRepository_Find r tid w = Inr c"
  by (simp add: cargoRepository_Find_def Query_One_def)

lemma Find_absent:
  "fault (session r) = None \<Longrightarrow> \<not> list_ex (sel_trackingid tid) (cargo_c w) \<Longrightarrow>
   cargoRepository_Find r tid w = Inl cargo_ErrUnknown"
  by (simp add: cargo_Find_working)

lemma Find_after_Store_docs:
  "fault (session r) = None \<Longrightarrow> cargo_c w' = cargo_c (snd (cargoRepository_Store r c w)) \<Longrightarrow>
   cargoRepository_Find r (c_TrackingID c) w' = Inr c"
  using Find_after_Store [of r c w] Find_cong_docs [of w' "snd (cargoRepository_Store r c w)"]
  by (simp add: Store_unfold Upsert_fst_None)

lemma Find_after_padded_Store_docs:
  "fault (session r) = None \<Longrightarrow>
   cargo_c w' = cargo_c (snd (padded_cargoRepository_Store r c w)) \<Longrightarrow>
   cargoRepository_Find r (c_TrackingID c) w' = Inr c"
  using Find_after_Store [of r c w]
  by (simp add: cargoRepository_Find_def Query_One_def padded_Store_docs Upsert_garbage_find
        Store_unfold Upsert_fst_None)

lemma Store_working: "fault (session r) = None \<Longrightarrow> fst (cargoRepository_Store r c w) = None"
  by (simp add: Store_unfold Upsert_fst_None)

text \<open>The methods of the two services, unfolded.\<close>

lemma timed_service_methods:
  "Repository_Find (cargos (timed_service rc rl)) tid w
     = (cargoRepository_Find (cargo rc) tid w, println (Took ''cargo Find'') w)"
  "Repository_Store (cargos (timed_service rc rl)) c w
     = (fst (cargoRepository_Store (cargo rc) c w),
        println (Took ''cargo Store'') (snd (cargoRepository_Store (cargo rc) c w)))"
  "Locations_Find (locations (timed_service rc rl)) k w
     = (locationRepository_Find (location rl) k w, println (Took ''location Find'') w)"
  by (simp_all add: timed_service_def timeCargoRepository_methods_def
        timeLocationRepository_methods_def timeCargoRepository_Find_def
        timeCargoRepository_Store_def timeLocationRepository_Find_def timeTrack_def
        case_prod_beta)

lemma padded_service_methods:
  "Repository_Find (cargos (padded_service pc pl)) tid w
     = (cargoRepository_Find pc tid w, println (Took ''Finding a single cargo'') w)"
  "Repository_Store (cargos (padded_service pc pl)) c w = padded_cargoRepository_Store pc c w"
  "Locations_Find (locations (padded_service pc pl)) k w
     = (locationRepository_Find pl k w, println (Took ''Find a location'') w)"
  by (simp_all add: padded_service_def padded_cargoRepository_methods_def
        padded_locationRepository_methods_def padded_cargoRepository_Find_def
        cargoRepository_Find_def padded_locationRepository_Find_def
        locationRepository_Find_def timed_def)

lemma AssignToRoute_fields:
  "c_TrackingID (AssignToRoute derive c i) = c_TrackingID c"
  "c_Itinerary (AssignToRoute derive c i) = i"
  "c_Origin (AssignToRoute derive c i) = c_Origin c"
  "c_RouteSpecification (AssignToRoute derive c i) = c_RouteSpecification c"
  by (simp_all add: AssignToRoute_def Let_def)

lemma SpecifyNewRoute_fields:
  "c_TrackingID (snd (SpecifyNewRoute derive c rs)) = c_TrackingID c"
  "c_Origin (snd (SpecifyNewRoute derive c rs)) = c_Origin c"
  "c_Itinerary (snd (SpecifyNewRoute derive c rs)) = c_Itinerary c"
  "c_RouteSpecification (snd (SpecifyNewRoute derive c rs))
     = (if rs_Origin rs = rs_Destination rs then c_RouteSpecification c else rs)"
  by (simp_all add: SpecifyNewRoute_def Let_def)

subsection \<open>C2: assigning a cargo to a route\<close>

lemma AssignCargoToRoute_timed:
  "tid \<noteq> '''' \<Longrightarrow> Legs i \<noteq> [] \<Longrightarrow>
   AssignCargoToRoute derive (timed_service rc rl) tid i w =
     (case cargoRepository_Find (cargo rc) tid w of
        Inl err \<Rightarrow> (Some err, println (UnableToFind tid err) (println (Took ''cargo Find'') w))
      | Inr c \<Rightarrow>
          (fst (cargoRepository_Store (cargo rc) (AssignToRoute derive c i) w),
           println (Took ''cargo Store'')
             (snd (cargoRepository_Store (cargo rc) (AssignToRoute derive c i)
                     (println (Took ''cargo Find'') w)))))"
  by (simp add: AssignCargoToRoute_def timed_service_methods Store_println split: sum.splits)

lemma AssignCargoToRoute_padded:
  "tid \<noteq> '''' \<Longrightarrow> Legs i \<noteq> [] \<Longrightarrow>
   AssignCargoToRoute derive (padded_service pc pl) tid i w =
     (case cargoRepository_Find pc tid w of
        Inl err \<Rightarrow>
          (Some err, println (UnableToFind tid err) (println (Took ''Finding a single cargo'') w))
      | Inr c \<Rightarrow>
          padded_cargoRepository_Store pc (AssignToRoute derive c i)
            (println (Took ''Finding a single cargo'') w))"
  by (simp add: AssignCargoToRoute_def padded_service_methods split: sum.splits)

text \<open>
  Claim C2, as stated, at the empty itinerary and at an unknown cargo:
  \<^verbatim>\<open>AssignCargoToRoute\<close> returns an error in both cases (lines 782-783, 787-789).
\<close>

theorem AssignCargoToRoute_error_counterexample:
  "fst (AssignCargoToRoute deriveRouting example_service ''ABC123'' \<lparr>Legs = []\<rparr> example_world)
     = Some ErrInvalidArgument \<and>
   fst (AssignCargoToRoute deriveRouting example_service ''XYZ789'' example_itinerary example_world)
     = Some cargo_ErrUnknown"
  by (simp add: AssignCargoToRoute_def example_service_def timed_service_methods
        cargoRepository_Find_def Query_One_def working_repository_def example_world_def
        empty_world_def example_cargo_def example_itinerary_def)

text \<open>
  Claim C2, amended.  \<^verbatim>\<open>AssignCargoToRoute\<close> returns ErrInvalidArgument, and changes
  nothing, when the tracking identity is empty or the itinerary has no leg.  Otherwise,
  on either variant of the repositories: when the session works and the cargo exists,
  it returns no error and the cargo stored under the identity is the cargo found with
  its itinerary replaced by the one given, whether or not the itinerary satisfies the
  route specification (no hypothesis says it does); when the cargo does not exist it
  returns \<^verbatim>\<open>cargo.ErrUnknown\<close>; when the session fails it returns the driver's error.
\<close>

theorem AssignCargoToRoute_replaces_itinerary:
  "((tid = '''' \<or> Legs i = []) \<longrightarrow>
      AssignCargoToRoute derive s tid i w = (Some ErrInvalidArgument, w)) \<and>
   (tid \<noteq> '''' \<and> Legs i \<noteq> [] \<and> fault (session (cargo rc)) = None \<and>
    find (sel_trackingid tid) (cargo_c w) = Some (CargoDoc c) \<longrightarrow>
      fst (AssignCargoToRoute derive (timed_service rc rl) tid i w) = None \<and>
      cargoRepository_Find (cargo rc) tid
          (snd (AssignCargoToRoute derive (timed_service rc rl) tid i w))
        = Inr (AssignToRoute derive c i) \<and>
      c_Itinerary (AssignToRoute derive c i) = i) \<and>
   (tid \<noteq> '''' \<and> Legs i \<noteq> [] \<and> fault (session pc) = None \<and>
    find (sel_trackingid tid) (cargo_c w) = Some (CargoDoc c) \<longrightarrow>
      fst (AssignCargoToRoute derive (padded_service pc pl) tid i w) = None \<and>
      cargoRepository_Find pc tid
          (snd (AssignCargoToRoute derive (padded_service pc pl) tid i w))
        = Inr (AssignToRoute derive c i)) \<and>
   (tid \<noteq> '''' \<and> Legs i \<noteq> [] \<and> fault (session (cargo rc)) = None \<and>
    \<not> list_ex (sel_trackingid tid) (cargo_c w) \<longrightarrow>
      fst (AssignCargoToRoute derive (timed_service rc rl) tid i w) = Some cargo_ErrUnknown) \<and>
   (\<forall>m. tid \<noteq> '''' \<and> Legs i \<noteq> [] \<and> fault (session (cargo rc)) = Some m \<longrightarrow>
      fst (AssignCargoToRoute derive (timed_service rc rl) tid i w) = Some (DriverError m))"
proof (intro conjI impI allI)
  assume "tid = '''' \<or> Legs i = []"
  then show "AssignCargoToRoute derive s tid i w = (Some ErrInvalidArgument, w)"
    by (auto simp: AssignCargoToRoute_def)
next
  assume a: "tid \<noteq> '''' \<and> Legs i \<noteq> [] \<and> fault (session (cargo rc)) = None \<and>
    find (sel_trackingid tid) (cargo_c w) = Some (CargoDoc c)"
  then have found: "cargoRepository_Find (cargo rc) tid w = Inr c"
    by (simp add: Find_present)
  then have tid: "c_TrackingID (AssignToRoute derive c i) = tid"
    by (simp add: AssignToRoute_fields Find_Inr_TrackingID)
  show "fst (AssignCargoToRoute derive (timed_service rc rl) tid i w) = None"
    using a found by (simp add: AssignCargoToRoute_timed Store_working)
  have "cargoRepository_Find (cargo rc) (c_TrackingID (AssignToRoute derive c i))
          (snd (AssignCargoToRoute derive (timed_service rc rl) tid i w))
        = Inr (AssignToRoute derive c i)"
    using a found
    by (intro Find_after_Store_docs [where w = w])
       (simp_all add: AssignCargoToRoute_timed println_fields Store_println)
  then show "cargoRepository_Find (cargo rc) tid
          (snd (AssignCargoToRoute derive (timed_service rc rl) tid i w))
        = Inr (AssignToRoute derive c i)"
    by (simp add: tid)
  show "c_Itinerary (AssignToRoute derive c i) = i"
    by (simp add: AssignToRoute_fields)
next
  assume a: "tid \<noteq> '''' \<and> Legs i \<noteq> [] \<and> fault (session pc) = None \<and>
    find (sel_trackingid tid) (cargo_c w) = Some (CargoDoc c)"
  then have found: "cargoRepository_Find pc tid w = Inr c"
    by (simp add: Find_present)
  then have tid: "c_TrackingID (AssignToRoute derive c i) = tid"
    by (simp add: AssignToRoute_fields Find_Inr_TrackingID)
  show "fst (AssignCargoToRoute derive (padded_service pc pl) tid i w) = None"
    using a found by (simp add: AssignCargoToRoute_padded padded_Store_fst Store_working)
  have "cargoRepository_Find pc (c_TrackingID (AssignToRoute derive c i))
          (snd (AssignCargoToRoute derive (padded_service pc pl) tid i w))
        = Inr (AssignToRoute derive c i)"
    using a found
    by (intro Find_after_padded_Store_docs [where w = w])
       (simp_all add: AssignCargoToRoute_padded println_fields padded_Store_println)
  then show "cargoRepository_Find pc tid
          (snd (AssignCargoToRoute derive (padded_service pc pl) tid i w))
        = Inr (AssignToRoute derive c i)"
    by (simp add: tid)
next
  assume "tid \<noteq> '''' \<and> Legs i \<noteq> [] \<and> fault (session (cargo rc)) = None \<and>
    \<not> list_ex (sel_trackingid tid) (cargo_c w)"
  then show "fst (AssignCargoToRoute derive (timed_service rc rl) tid i w) = Some cargo_ErrUnknown"
    by (simp add: AssignCargoToRoute_timed Find_absent)
next
  fix m
  assume "tid \<noteq> '''' \<and> Legs i \<noteq> [] \<and> fault (session (cargo rc)) = Some m"
  then show "fst (AssignCargoToRoute derive (timed_service rc rl) tid i w) = Some (DriverError m)"
    by (simp add: AssignCargoToRoute_timed Find_fault)
qed

text \<open>
  The theorem at the example cargo, whose route specification asks for Hongkong, and
  an itinerary that ends in Hamburg: the itinerary does not satisfy the route
  specification, it is stored all the same, and the routing status derived by rule 5
  is Misrouted.
\<close>

theorem AssignCargoToRoute_replaces_itinerary_witness:
  "\<not> satisfies example_itinerary (c_RouteSpecification example_cargo) \<and>
   find (sel_trackingid ''ABC123'') (cargo_c example_world) = Some (CargoDoc example_cargo) \<and>
   fst (AssignCargoToRoute deriveRouting example_service ''ABC123'' example_itinerary example_world)
     = None \<and>
   cargoRepository_Find working_repository ''ABC123''
       (snd (AssignCargoToRoute deriveRouting example_service ''ABC123'' example_itinerary
               example_world))
     = Inr (AssignToRoute deriveRouting example_cargo example_itinerary) \<and>
   c_Itinerary (AssignToRoute deriveRouting example_cargo example_itinerary) = example_itinerary \<and>
   d_RoutingStatus (c_Delivery (AssignToRoute deriveRouting example_cargo example_itinerary))
     = Misrouted"
  using AssignCargoToRoute_replaces_itinerary [of "''ABC123''" example_itinerary deriveRouting
          example_service example_world "\<lparr>cargo = working_repository\<rparr>" example_cargo
          "\<lparr>location = working_repository\<rparr>" working_repository working_repository]
  by (simp add: example_service_def working_repository_def example_world_def empty_world_def
        example_cargo_def example_itinerary_def satisfies_def AssignToRoute_def deriveRouting_def
        routingStatus_def)

subsection \<open>C7 and C9: changing the destination\<close>

lemma Store_result_cases_beta:
  "(case fst p of Some err \<Rightarrow> (Some err, snd p) | None \<Rightarrow> (None, snd p)) = p"
  by (cases p) (auto split: option.splits)

lemma ChangeDestination_timed:
  "tid \<noteq> '''' \<Longrightarrow> dest \<noteq> '''' \<Longrightarrow>
   ChangeDestination derive (timed_service rc rl) tid dest w =
     (case cargoRepository_Find (cargo rc) tid w of
        Inl err \<Rightarrow> (Some err, println (Took ''cargo Find'') w)
      | Inr c \<Rightarrow>
          (case locationRepository_Find (location rl) dest w of
             Inl err \<Rightarrow>
               (Some err, println (Took ''location Find'') (println (Took ''cargo Find'') w))
           | Inr l \<Rightarrow>
               (fst (cargoRepository_Store (cargo rc)
                       (snd (SpecifyNewRoute derive c (newRoute c l))) w),
                println (Took ''cargo Store'')
                  (snd (cargoRepository_Store (cargo rc)
                          (snd (SpecifyNewRoute derive c (newRoute c l)))
                          (println (Took ''location Find'') (println (Took ''cargo Find'') w)))))))"
  by (simp add: ChangeDestination_def timed_service_methods Find_println Store_println
        newRoute_def case_prod_beta Store_result_cases_beta split: sum.splits option.splits)

lemma ChangeDestination_padded:
  "tid \<noteq> '''' \<Longrightarrow> dest \<noteq> '''' \<Longrightarrow>
   ChangeDestination derive (padded_service pc pl) tid dest w =
     (case cargoRepository_Find pc tid w of
        Inl err \<Rightarrow> (Some err, println (Took ''Finding a single cargo'') w)
      | Inr c \<Rightarrow>
          (case locationRepository_Find pl dest w of
             Inl err \<Rightarrow>
               (Some err,
                println (Took ''Find a location'') (println (Took ''Finding a single cargo'') w))
           | Inr l \<Rightarrow>
               padded_cargoRepository_Store pc (snd (SpecifyNewRoute derive c (newRoute c l)))
                 (println (Took ''Find a location'')
                    (println (Took ''Finding a single cargo'') w))))"
  by (simp add: ChangeDestination_def padded_service_methods Find_println
        newRoute_def case_prod_beta Store_result_cases_beta split: sum.splits option.splits)


text \<open>A call that returns no error found the cargo and the location and stored the cargo.\<close>

lemma ChangeDestination_timed_success:
  assumes "fst (ChangeDestination derive (timed_service rc rl) tid dest w) = None"
  shows "\<exists>c l. cargoRepository_Find (cargo rc) tid w = Inr c \<and>
           locationRepository_Find (location rl) dest w = Inr l \<and>
           cargoRepository_Find (cargo rc) tid
               (snd (ChangeDestination derive (timed_service rc rl) tid dest w))
             = Inr (snd (SpecifyNewRoute derive c (newRoute c l)))"
proof -
  from assms have ne: "tid \<noteq> ''''" "dest \<noteq> ''''"
    by (auto simp: ChangeDestination_def split: if_splits)
  from assms ne obtain c where c: "cargoRepository_Find (cargo rc) tid w = Inr c"
    by (auto simp: ChangeDestination_timed split: sum.splits)
  from assms ne c obtain l where l: "locationRepository_Find (location rl) dest w = Inr l"
    by (auto simp: ChangeDestination_timed split: sum.splits)
  let ?c1 = "snd (SpecifyNewRoute derive c (newRoute c l))"
  have tid: "c_TrackingID ?c1 = tid"
    using c by (simp add: SpecifyNewRoute_fields Find_Inr_TrackingID)
  have "cargoRepository_Find (cargo rc) (c_TrackingID ?c1)
          (snd (ChangeDestination derive (timed_service rc rl) tid dest w)) = Inr ?c1"
    using ne c l
    by (intro Find_after_Store_docs [where w = w])
       (simp_all add: Find_Inr_working ChangeDestination_timed println_fields Store_println)
  with c l tid show ?thesis by simp
qed

lemma ChangeDestination_padded_success:
  assumes "fst (ChangeDestination derive (padded_service pc pl) tid dest w) = None"
  shows "\<exists>c l. cargoRepository_Find pc tid w = Inr c \<and>
           locationRepository_Find pl dest w = Inr l \<and>
           cargoRepository_Find pc tid
               (snd (ChangeDestination derive (padded_service pc pl) tid dest w))
             = Inr (snd (SpecifyNewRoute derive c (newRoute c l)))"
proof -
  from assms have ne: "tid \<noteq> ''''" "dest \<noteq> ''''"
    by (auto simp: ChangeDestination_def split: if_splits)
  from assms ne obtain c where c: "cargoRepository_Find pc tid w = Inr c"
    by (auto simp: ChangeDestination_padded split: sum.splits)
  from assms ne c obtain l where l: "locationRepository_Find pl dest w = Inr l"
    by (auto simp: ChangeDestination_padded split: sum.splits)
  let ?c1 = "snd (SpecifyNewRoute derive c (newRoute c l))"
  have tid: "c_TrackingID ?c1 = tid"
    using c by (simp add: SpecifyNewRoute_fields Find_Inr_TrackingID)
  have "cargoRepository_Find pc (c_TrackingID ?c1)
          (snd (ChangeDestination derive (padded_service pc pl) tid dest w)) = Inr ?c1"
    using ne c l
    by (intro Find_after_padded_Store_docs [where w = w])
       (simp_all add: Find_Inr_working ChangeDestination_padded println_fields
          padded_Store_println)
  with c l tid show ?thesis by simp
qed

lemma ChangeDestination_timed_errors:
  assumes e: "fst (ChangeDestination derive (timed_service rc rl) tid dest w) = Some err"
  shows "err = ErrInvalidArgument \<or> err = cargo_ErrUnknown \<or> err = location_ErrUnknown \<or>
         (\<exists>m. err = DriverError m)"
proof (cases "tid = '''' \<or> dest = ''''")
  case True
  with e show ?thesis by (auto simp: ChangeDestination_def)
next
  case False
  then have ne: "tid \<noteq> ''''" "dest \<noteq> ''''" by auto
  show ?thesis
  proof (cases "cargoRepository_Find (cargo rc) tid w")
    case (Inl e1)
    with e ne have "err = e1" by (simp add: ChangeDestination_timed)
    with Inl Find_Inl_cases show ?thesis by blast
  next
    case found: (Inr c)
    show ?thesis
    proof (cases "locationRepository_Find (location rl) dest w")
      case (Inl e2)
      with e ne found have "err = e2" by (simp add: ChangeDestination_timed)
      with Inl location_Find_Inl_cases show ?thesis by blast
    next
      case (Inr l)
      with e ne found
      have "fst (cargoRepository_Store (cargo rc) (snd (SpecifyNewRoute derive c (newRoute c l))) w)
              = Some err"
        by (simp add: ChangeDestination_timed)
      then show ?thesis using Store_error_cases by blast
    qed
  qed
qed

lemma ChangeDestination_padded_errors:
  assumes e: "fst (ChangeDestination derive (padded_service pc pl) tid dest w) = Some err"
  shows "err = ErrInvalidArgument \<or> err = cargo_ErrUnknown \<or> err = location_ErrUnknown \<or>
         (\<exists>m. err = DriverError m)"
proof (cases "tid = '''' \<or> dest = ''''")
  case True
  with e show ?thesis by (auto simp: ChangeDestination_def)
next
  case False
  then have ne: "tid \<noteq> ''''" "dest \<noteq> ''''" by auto
  show ?thesis
  proof (cases "cargoRepository_Find pc tid w")
    case (Inl e1)
    with e ne have "err = e1" by (simp add: ChangeDestination_padded)
    with Inl Find_Inl_cases show ?thesis by blast
  next
    case found: (Inr c)
    show ?thesis
    proof (cases "locationRepository_Find pl dest w")
      case (Inl e2)
      with e ne found have "err = e2" by (simp add: ChangeDestination_padded)
      with Inl location_Find_Inl_cases show ?thesis by blast
    next
      case (Inr l)
      with e ne found
      have "fst (cargoRepository_Store pc (snd (SpecifyNewRoute derive c (newRoute c l))) w)
              = Some err"
        by (simp add: ChangeDestination_padded padded_Store_fst Store_println)
      then show ?thesis using Store_error_cases by blast
    qed
  qed
qed

lemma location_Find_present:
  "fault (session r) = None \<Longrightarrow> find (\<lambda>l. l_UNLocode l = k) (location_c w) = Some l \<Longrightarrow>
   locationRepository_Find r k w = Inr l"
  by (simp add: location_Find_working)

lemma location_found_key:
  "find (\<lambda>l. l_UNLocode l = k) (location_c w) = Some l \<Longrightarrow> l_UNLocode l = k"
  by (auto simp: find_Some_iff)

lemma ChangeDestination_timed_ok:
  assumes "tid \<noteq> ''''" "dest \<noteq> ''''"
    and "fault (session (cargo rc)) = None" "fault (session (location rl)) = None"
    and "find (sel_trackingid tid) (cargo_c w) = Some (CargoDoc c)"
    and "find (\<lambda>l. l_UNLocode l = dest) (location_c w) = Some l"
  shows "fst (ChangeDestination derive (timed_service rc rl) tid dest w) = None"
  using assms
  by (simp add: ChangeDestination_timed Find_present location_Find_present Store_working)

lemma ChangeDestination_padded_ok:
  assumes "tid \<noteq> ''''" "dest \<noteq> ''''"
    and "fault (session pc) = None" "fault (session pl) = None"
    and "find (sel_trackingid tid) (cargo_c w) = Some (CargoDoc c)"
    and "find (\<lambda>l. l_UNLocode l = dest) (location_c w) = Some l"
  shows "fst (ChangeDestination derive (padded_service pc pl) tid dest w) = None"
  using assms
  by (simp add: ChangeDestination_padded Find_present location_Find_present padded_Store_fst
        Store_working)

text \<open>
  Claim C7, as stated, at the example cargo, whose origin is Stockholm, and the
  destination Stockholm: the new route specification has its origin equal to its
  destination, and \<^verbatim>\<open>ChangeDestination\<close> returns no error.
\<close>

theorem ChangeDestination_InvalidState_counterexample:
  "c_Origin example_cargo = ''SESTO'' \<and>
   fst (ChangeDestination deriveRouting example_service ''ABC123'' ''SESTO'' example_world) = None"
  by (simp add: ChangeDestination_timed example_service_def cargoRepository_Find_def
        locationRepository_Find_def Query_One_def Store_unfold Collection_Upsert_def
        working_repository_def example_world_def empty_world_def example_cargo_def)

text \<open>
  Claim C7, amended.  \<^verbatim>\<open>ChangeDestination\<close> never returns InvalidState: the call of
  \<^verbatim>\<open>SpecifyNewRoute\<close> is a statement (line 865) and nothing it returns reaches the
  caller.  On either variant of the repositories the errors are ErrInvalidArgument,
  \<^verbatim>\<open>cargo.ErrUnknown\<close>, \<^verbatim>\<open>location.ErrUnknown\<close> and the driver's.  With a tracking
  identity and a destination that are not empty, working sessions, a cargo that exists
  and a destination that is registered, it returns no error, whether or not the
  destination equals the cargo's origin; when the two differ, the cargo stored has the
  new route specification.
\<close>

theorem ChangeDestination_no_InvalidState:
  "fst (ChangeDestination derive (timed_service rc rl) tid dest w) \<noteq> Some InvalidState \<and>
   fst (ChangeDestination derive (padded_service pc pl) tid dest w) \<noteq> Some InvalidState \<and>
   (tid \<noteq> '''' \<and> dest \<noteq> '''' \<and>
    fault (session (cargo rc)) = None \<and> fault (session (location rl)) = None \<and>
    fault (session pc) = None \<and> fault (session pl) = None \<and>
    find (sel_trackingid tid) (cargo_c w) = Some (CargoDoc c) \<and>
    find (\<lambda>l. l_UNLocode l = dest) (location_c w) = Some l \<longrightarrow>
      fst (ChangeDestination derive (timed_service rc rl) tid dest w) = None \<and>
      fst (ChangeDestination derive (padded_service pc pl) tid dest w) = None \<and>
      (c_Origin c \<noteq> dest \<longrightarrow>
         (\<exists>c1. cargoRepository_Find (cargo rc) tid
                  (snd (ChangeDestination derive (timed_service rc rl) tid dest w)) = Inr c1 \<and>
               c_RouteSpecification c1
                 = \<lparr>rs_Origin = c_Origin c, rs_Destination = dest,
                    rs_ArrivalDeadline = rs_ArrivalDeadline (c_RouteSpecification c)\<rparr>) \<and>
         (\<exists>c1. cargoRepository_Find pc tid
                  (snd (ChangeDestination derive (padded_service pc pl) tid dest w)) = Inr c1 \<and>
               c_RouteSpecification c1
                 = \<lparr>rs_Origin = c_Origin c, rs_Destination = dest,
                    rs_ArrivalDeadline = rs_ArrivalDeadline (c_RouteSpecification c)\<rparr>)))"
proof (intro conjI impI)
  show "fst (ChangeDestination derive (timed_service rc rl) tid dest w) \<noteq> Some InvalidState"
    using ChangeDestination_timed_errors [of derive rc rl tid dest w InvalidState] by auto
  show "fst (ChangeDestination derive (padded_service pc pl) tid dest w) \<noteq> Some InvalidState"
    using ChangeDestination_padded_errors [of derive pc pl tid dest w InvalidState] by auto
next
  assume a: "tid \<noteq> '''' \<and> dest \<noteq> '''' \<and>
    fault (session (cargo rc)) = None \<and> fault (session (location rl)) = None \<and>
    fault (session pc) = None \<and> fault (session pl) = None \<and>
    find (sel_trackingid tid) (cargo_c w) = Some (CargoDoc c) \<and>
    find (\<lambda>l. l_UNLocode l = dest) (location_c w) = Some l"
  show t: "fst (ChangeDestination derive (timed_service rc rl) tid dest w) = None"
    using a by (simp add: ChangeDestination_timed_ok)
  show p: "fst (ChangeDestination derive (padded_service pc pl) tid dest w) = None"
    using a by (simp add: ChangeDestination_padded_ok)
  assume differ: "c_Origin c \<noteq> dest"
  have route: "c_RouteSpecification (snd (SpecifyNewRoute derive c (newRoute c l)))
      = \<lparr>rs_Origin = c_Origin c, rs_Destination = dest,
         rs_ArrivalDeadline = rs_ArrivalDeadline (c_RouteSpecification c)\<rparr>"
    using a differ location_found_key [of dest w l]
    by (simp add: SpecifyNewRoute_fields newRoute_def)
  show "\<exists>c1. cargoRepository_Find (cargo rc) tid
                  (snd (ChangeDestination derive (timed_service rc rl) tid dest w)) = Inr c1 \<and>
               c_RouteSpecification c1
                 = \<lparr>rs_Origin = c_Origin c, rs_Destination = dest,
                    rs_ArrivalDeadline = rs_ArrivalDeadline (c_RouteSpecification c)\<rparr>"
    using ChangeDestination_timed_success [OF t] a route
    by (auto simp: Find_present location_Find_present)
  show "\<exists>c1. cargoRepository_Find pc tid
                  (snd (ChangeDestination derive (padded_service pc pl) tid dest w)) = Inr c1 \<and>
               c_RouteSpecification c1
                 = \<lparr>rs_Origin = c_Origin c, rs_Destination = dest,
                    rs_ArrivalDeadline = rs_ArrivalDeadline (c_RouteSpecification c)\<rparr>"
    using ChangeDestination_padded_success [OF p] a route
    by (auto simp: Find_present location_Find_present)
qed

text \<open>
  The theorem at the example cargo, once with its own origin Stockholm as the new
  destination and once with Hamburg.
\<close>

theorem ChangeDestination_no_InvalidState_witness:
  "find (sel_trackingid ''ABC123'') (cargo_c example_world) = Some (CargoDoc example_cargo) \<and>
   find (\<lambda>l. l_UNLocode l = ''SESTO'') (location_c example_world)
     = Some \<lparr>l_UNLocode = ''SESTO'', l_Name = ''Stockholm''\<rparr> \<and>
   find (\<lambda>l. l_UNLocode l = ''DEHAM'') (location_c example_world)
     = Some \<lparr>l_UNLocode = ''DEHAM'', l_Name = ''Hamburg''\<rparr> \<and>
   c_Origin example_cargo = ''SESTO'' \<and>
   fst (ChangeDestination deriveRouting example_service ''ABC123'' ''SESTO'' example_world)
     \<noteq> Some InvalidState \<and>
   fst (ChangeDestination deriveRouting example_service ''ABC123'' ''DEHAM'' example_world) = None \<and>
   (\<exists>c1. cargoRepository_Find working_repository ''ABC123''
            (snd (ChangeDestination deriveRouting example_service ''ABC123'' ''DEHAM''
                    example_world)) = Inr c1 \<and>
         c_RouteSpecification c1
           = \<lparr>rs_Origin = ''SESTO'', rs_Destination = ''DEHAM'', rs_ArrivalDeadline = 1000\<rparr>)"
  using ChangeDestination_no_InvalidState [where derive = deriveRouting
          and rc = "\<lparr>cargo = working_repository\<rparr>" and rl = "\<lparr>location = working_repository\<rparr>"
          and pc = working_repository and pl = working_repository
          and tid = "''ABC123''" and dest = "''SESTO''" and w = example_world
          and c = example_cargo and l = "\<lparr>l_UNLocode = ''SESTO'', l_Name = ''Stockholm''\<rparr>"]
    ChangeDestination_no_InvalidState [where derive = deriveRouting
          and rc = "\<lparr>cargo = working_repository\<rparr>" and rl = "\<lparr>location = working_repository\<rparr>"
          and pc = working_repository and pl = working_repository
          and tid = "''ABC123''" and dest = "''DEHAM''" and w = example_world
          and c = example_cargo and l = "\<lparr>l_UNLocode = ''DEHAM'', l_Name = ''Hamburg''\<rparr>"]
  by (simp add: example_service_def working_repository_def example_world_def empty_world_def
        example_cargo_def)




subsection \<open>C5: the padding toggle\<close>

lemma pad_replicate: "pad n s = s @ replicate n CHR ''a''"
  by (induction n arbitrary: s) (simp_all add: replicate_append_same)

lemma padded_Store_writes:
  assumes "fault (session r) = None"
  shows "find (sel_trackingid_g (c_TrackingID c)) (cargo_c (snd (padded_cargoRepository_Store r c w)))
           = Some (GarbageDoc (c_TrackingID c) (g_Garbage (GARBAGE_CARGO w)))"
    and "find (sel_trackingid (c_TrackingID c)) (cargo_c (snd (padded_cargoRepository_Store r c w)))
           = Some (CargoDoc c)"
  using assms
  by (simp_all add: padded_Store_unfold timed_def println_fields Upsert_find Upsert_garbage_find)

lemma padded_NewCargoRepository_garbage:
  "g_Garbage (GARBAGE_CARGO (snd (padded_NewCargoRepository e name sess w))) =
     g_Garbage (GARBAGE_CARGO w)
       @ (if Getenv e ''NO_PADDING'' = '''' then replicate (60 * 1024) CHR ''a'' else '''')"
  by (simp add: padded_NewCargoRepository_def pad_replicate Let_def split: option.splits)

lemma padded_NewCargoRepository_working:
  "fst (padded_NewCargoRepository e name sess w) = Inr r \<Longrightarrow> fault (session r) = None"
  by (auto simp: padded_NewCargoRepository_def EnsureIndex_def Let_def split: option.splits)

lemma padded_NewCargoRepository_example:
  "padded_NewCargoRepository e ''goddd'' \<lparr>fault = None\<rparr> empty_world =
     (Inr working_repository,
      empty_world\<lparr>GARBAGE_CARGO :=
        \<lparr>g_Garbage = (if Getenv e ''NO_PADDING'' = '''' then replicate (60 * 1024) CHR ''a''
                      else '''')\<rparr>\<rparr>)"
  by (simp add: padded_NewCargoRepository_def EnsureIndex_def working_repository_def
        empty_world_def pad_replicate Let_def)

text \<open>
  Claim C5, as stated, in a fresh process with a working session.  With \<^verbatim>\<open>NO_PADDING\<close>
  set to the empty value, \<^verbatim>\<open>os.Getenv\<close> gives the empty string as it does for a
  variable that is not set, and the \<^verbatim>\<open>Store\<close> of the example cargo writes a filler
  record of 60 * 1024 letters.  With \<^verbatim>\<open>NO_PADDING=1\<close> the \<^verbatim>\<open>Store\<close> still writes a filler
  record beside the cargo (line 57 is not guarded by the toggle); its garbage is the
  empty string.
\<close>

theorem padding_toggle_counterexample:
  "[''NO_PADDING'' \<mapsto> ''''] ''NO_PADDING'' = Some '''' \<and>
   find (sel_trackingid_g ''ABC123'')
       (cargo_c (snd (padded_cargoRepository_Store working_repository example_cargo
          (snd (padded_NewCargoRepository [''NO_PADDING'' \<mapsto> ''''] ''goddd'' \<lparr>fault = None\<rparr>
                  empty_world)))))
     = Some (GarbageDoc ''ABC123'' (replicate (60 * 1024) CHR ''a'')) \<and>
   cargo_c (snd (padded_cargoRepository_Store working_repository example_cargo
          (snd (padded_NewCargoRepository [''NO_PADDING'' \<mapsto> ''1''] ''goddd'' \<lparr>fault = None\<rparr>
                  empty_world))))
     = [CargoDoc example_cargo, GarbageDoc ''ABC123'' '''']"
proof -
  have id: "c_TrackingID example_cargo = ''ABC123''"
    by (simp add: example_cargo_def)
  have empty: "Getenv [''NO_PADDING'' \<mapsto> ''''] ''NO_PADDING'' = ''''"
    and one: "Getenv [''NO_PADDING'' \<mapsto> ''1''] ''NO_PADDING'' = ''1''"
    by (simp_all add: Getenv_def)
  have works: "fault (session working_repository) = None"
    by (simp add: working_repository_def)
  have "find (sel_trackingid_g ''ABC123'')
       (cargo_c (snd (padded_cargoRepository_Store working_repository example_cargo
          (snd (padded_NewCargoRepository [''NO_PADDING'' \<mapsto> ''''] ''goddd'' \<lparr>fault = None\<rparr>
                  empty_world)))))
     = Some (GarbageDoc ''ABC123'' (replicate (60 * 1024) CHR ''a''))"
    using padded_Store_writes(1) [OF works, of example_cargo]
    by (simp add: padded_NewCargoRepository_example empty id)
  moreover have built:
    "snd (padded_NewCargoRepository [''NO_PADDING'' \<mapsto> ''1''] ''goddd'' \<lparr>fault = None\<rparr>
            empty_world)
       = empty_world\<lparr>GARBAGE_CARGO := \<lparr>g_Garbage = ''''\<rparr>\<rparr>"
    by (simp add: padded_NewCargoRepository_example one)
  have "cargo_c (snd (padded_cargoRepository_Store working_repository example_cargo
          (snd (padded_NewCargoRepository [''NO_PADDING'' \<mapsto> ''1''] ''goddd'' \<lparr>fault = None\<rparr>
                  empty_world))))
     = [CargoDoc example_cargo, GarbageDoc ''ABC123'' '''']"
    unfolding built
    by (simp add: id padded_Store_unfold Collection_Upsert_def timed_def println_fields
          working_repository_def empty_world_def)
  ultimately show ?thesis
    by simp
qed

text \<open>
  Claim C5, amended.  \<^verbatim>\<open>NewCargoRepository\<close> of the padded variant appends 60 * 1024
  letters \<^verbatim>\<open>a\<close> (61440 bytes) to the package variable \<^verbatim>\<open>GARBAGE_CARGO\<close> when
  \<^verbatim>\<open>os.Getenv("NO_PADDING")\<close> is empty, that is when the variable is not set or is set to
  the empty value, and appends nothing when it is set to another value.  Every \<^verbatim>\<open>Store\<close>
  through the repository it returns, the package variable being what the constructor
  left, writes beside the cargo record, which is the cargo itself, a filler record
  under the cargo's tracking identity whose garbage is the package variable: what it
  held before the construction, followed by the letters appended.  The filler record
  is written whatever the toggle; with the toggle set to a value that is not empty,
  in a process that has appended nothing before, its garbage is the empty string.
\<close>

theorem padding_toggle:
  assumes built: "padded_NewCargoRepository e name sess w0 = (Inr r, w1)"
    and later: "GARBAGE_CARGO w = GARBAGE_CARGO w1"
  shows
    "find (sel_trackingid_g (c_TrackingID c))
         (cargo_c (snd (padded_cargoRepository_Store r c w)))
       = Some (GarbageDoc (c_TrackingID c)
                 (g_Garbage (GARBAGE_CARGO w0)
                    @ (if Getenv e ''NO_PADDING'' = '''' then replicate (60 * 1024) CHR ''a''
                       else ''''))) \<and>
     find (sel_trackingid (c_TrackingID c))
         (cargo_c (snd (padded_cargoRepository_Store r c w)))
       = Some (CargoDoc c) \<and>
     Getenv e ''NO_PADDING'' = (case e ''NO_PADDING'' of None \<Rightarrow> '''' | Some v \<Rightarrow> v) \<and>
     length (replicate (60 * 1024) CHR ''a'') = 61440"
proof -
  from built have working: "fault (session r) = None"
    by (intro padded_NewCargoRepository_working [of e name sess w0]) simp
  have garbage: "g_Garbage (GARBAGE_CARGO w) =
      g_Garbage (GARBAGE_CARGO w0)
        @ (if Getenv e ''NO_PADDING'' = '''' then replicate (60 * 1024) CHR ''a'' else '''')"
    using padded_NewCargoRepository_garbage [of e name sess w0] built later by simp
  show ?thesis
    using padded_Store_writes [OF working, of c w] garbage
    by (simp add: Getenv_def)
qed

text \<open>
  The theorem in a fresh process with a working session: with no environment variable
  set, with \<^verbatim>\<open>NO_PADDING\<close> set to the empty value, and with \<^verbatim>\<open>NO_PADDING=1\<close>.  The example
  cargo is stored right after the constructor returns.
\<close>

theorem padding_toggle_witness:
  "padded_NewCargoRepository Map.empty ''goddd'' \<lparr>fault = None\<rparr> empty_world
     = (Inr working_repository,
        snd (padded_NewCargoRepository Map.empty ''goddd'' \<lparr>fault = None\<rparr> empty_world)) \<and>
   find (sel_trackingid_g ''ABC123'')
       (cargo_c (snd (padded_cargoRepository_Store working_repository example_cargo
          (snd (padded_NewCargoRepository Map.empty ''goddd'' \<lparr>fault = None\<rparr> empty_world)))))
     = Some (GarbageDoc ''ABC123'' (replicate (60 * 1024) CHR ''a'')) \<and>
   find (sel_trackingid_g ''ABC123'')
       (cargo_c (snd (padded_cargoRepository_Store working_repository example_cargo
          (snd (padded_NewCargoRepository [''NO_PADDING'' \<mapsto> ''''] ''goddd'' \<lparr>fault = None\<rparr>
                  empty_world)))))
     = Some (GarbageDoc ''ABC123'' (replicate (60 * 1024) CHR ''a'')) \<and>
   find (sel_trackingid_g ''ABC123'')
       (cargo_c (snd (padded_cargoRepository_Store working_repository example_cargo
          (snd (padded_NewCargoRepository [''NO_PADDING'' \<mapsto> ''1''] ''goddd'' \<lparr>fault = None\<rparr>
                  empty_world)))))
     = Some (GarbageDoc ''ABC123'' '''') \<and>
   find (sel_trackingid ''ABC123'')
       (cargo_c (snd (padded_cargoRepository_Store working_repository example_cargo
          (snd (padded_NewCargoRepository [''NO_PADDING'' \<mapsto> ''1''] ''goddd'' \<lparr>fault = None\<rparr>
                  empty_world)))))
     = Some (CargoDoc example_cargo)"
proof -
  have built: "padded_NewCargoRepository e ''goddd'' \<lparr>fault = None\<rparr> empty_world
     = (Inr working_repository,
        snd (padded_NewCargoRepository e ''goddd'' \<lparr>fault = None\<rparr> empty_world))" for e
    by (simp add: padded_NewCargoRepository_example)
  have facts: "c_TrackingID example_cargo = ''ABC123''"
    "g_Garbage (GARBAGE_CARGO empty_world) = ''''"
    "Getenv Map.empty ''NO_PADDING'' = ''''"
    "Getenv [''NO_PADDING'' \<mapsto> ''''] ''NO_PADDING'' = ''''"
    "Getenv [''NO_PADDING'' \<mapsto> ''1''] ''NO_PADDING'' = ''1''"
    by (simp_all add: example_cargo_def empty_world_def Getenv_def)
  from padding_toggle [OF built [of Map.empty] refl, of example_cargo]
    padding_toggle [OF built [of "[''NO_PADDING'' \<mapsto> '''']"] refl, of example_cargo]
    padding_toggle [OF built [of "[''NO_PADDING'' \<mapsto> ''1'']"] refl, of example_cargo]
    built [of Map.empty] facts
  show ?thesis
    by simp
qed

subsection \<open>C8: FindAll\<close>

text \<open>
  In both variants \<^verbatim>\<open>FindAll\<close> has no error to return: a failing query gives the empty
  slice (lines 94-97, 446-448), a working one gives one decoded cargo per document of
  the collection, in natural order.
\<close>

lemma FindAll_unfold:
  "cargoRepository_FindAll r w =
     (if fault (session r) = None then map decode_Cargo (cargo_c w) else [])"
  "fst (padded_cargoRepository_FindAll r w) = cargoRepository_FindAll r w"
  by (simp_all add: cargoRepository_FindAll_def padded_cargoRepository_FindAll_def Query_All_def
        split: option.splits)

text \<open>
  A collection the time-instrumented \<^verbatim>\<open>Store\<close> has built holds cargo records only, and
  \<^verbatim>\<open>FindAll\<close> returns the cargos stored.
\<close>

lemma FindAll_cargo_records:
  "fault (session r) = None \<Longrightarrow> cargoRepository_FindAll r (w\<lparr>cargo_c := map CargoDoc cs\<rparr>) = cs"
  by (simp add: FindAll_unfold comp_def)

text \<open>
  Claim C8.  In both variants \<^verbatim>\<open>FindAll\<close> never fails, and a failing query gives the
  empty slice.  A working query gives one cargo per document of the collection, and
  there the padded variant departs from the claim: at the collection its own \<^verbatim>\<open>Store\<close>
  builds from the empty one, one cargo has been stored and \<^verbatim>\<open>FindAll\<close> returns two,
  the cargo and the zero value decoded from the filler record that \<^verbatim>\<open>Store\<close> wrote
  beside it (line 57).  The time-instrumented variant returns the cargo alone.
\<close>

theorem padded_FindAll_returns_filler:
  "cargoRepository_FindAll r w =
     (if fault (session r) = None then map decode_Cargo (cargo_c w) else []) \<and>
   fst (padded_cargoRepository_FindAll r w) = cargoRepository_FindAll r w \<and>
   fst (padded_cargoRepository_FindAll working_repository
          (snd (padded_cargoRepository_Store working_repository example_cargo empty_world)))
     = [example_cargo, zero_Cargo] \<and>
   cargoRepository_FindAll working_repository
          (snd (cargoRepository_Store working_repository example_cargo empty_world))
     = [example_cargo]"
  by (simp add: FindAll_unfold padded_Store_unfold Store_unfold Collection_Upsert_def
        timed_def println_fields working_repository_def empty_world_def)

subsection \<open>C10: the time-instrumented wrappers\<close>

lemma println_stdout: "(println l w)\<lparr>stdout := out\<rparr> = w\<lparr>stdout := out\<rparr>"
  by (simp add: println_def)

text \<open>
  Claim C10.  Every method of the four wrappers returns the value and the error that
  the method of the wrapped repository returns, and leaves the world that method
  leaves, but for the one line \<^verbatim>\<open>timeTrack\<close> prints (the state is compared with the
  standard output set to an arbitrary \<open>out\<close> on both sides).
\<close>

theorem time_wrappers_delegate:
  "fst (timeCargoRepository_Remove rc c w) = fst (cargoRepository_Remove (cargo rc) c w) \<and>
   (snd (timeCargoRepository_Remove rc c w))\<lparr>stdout := out\<rparr>
     = (snd (cargoRepository_Remove (cargo rc) c w))\<lparr>stdout := out\<rparr> \<and>
   fst (timeCargoRepository_Store rc c w) = fst (cargoRepository_Store (cargo rc) c w) \<and>
   (snd (timeCargoRepository_Store rc c w))\<lparr>stdout := out\<rparr>
     = (snd (cargoRepository_Store (cargo rc) c w))\<lparr>stdout := out\<rparr> \<and>
   fst (timeCargoRepository_Find rc tid w) = cargoRepository_Find (cargo rc) tid w \<and>
   (snd (timeCargoRepository_Find rc tid w))\<lparr>stdout := out\<rparr> = w\<lparr>stdout := out\<rparr> \<and>
   fst (timeCargoRepository_FindAll rc w) = cargoRepository_FindAll (cargo rc) w \<and>
   (snd (timeCargoRepository_FindAll rc w))\<lparr>stdout := out\<rparr> = w\<lparr>stdout := out\<rparr> \<and>
   fst (timeLocationRepository_Find rl locode w) = locationRepository_Find (location rl) locode w \<and>
   (snd (timeLocationRepository_Find rl locode w))\<lparr>stdout := out\<rparr> = w\<lparr>stdout := out\<rparr> \<and>
   fst (timeLocationRepository_FindAll rl w) = locationRepository_FindAll (location rl) w \<and>
   (snd (timeLocationRepository_FindAll rl w))\<lparr>stdout := out\<rparr> = w\<lparr>stdout := out\<rparr> \<and>
   fst (timeVoyageRepository_Find rv number w) = voyageRepository_Find (voyage rv) number w \<and>
   (snd (timeVoyageRepository_Find rv number w))\<lparr>stdout := out\<rparr> = w\<lparr>stdout := out\<rparr> \<and>
   (timeHandlingEventRepository_Store re e w)\<lparr>stdout := out\<rparr>
     = (handlingEventRepository_Store (event re) e w)\<lparr>stdout := out\<rparr> \<and>
   fst (timeHandlingEventRepository_QueryHandlingHistory re tid w)
     = handlingEventRepository_QueryHandlingHistory (event re) tid w \<and>
   (snd (timeHandlingEventRepository_QueryHandlingHistory re tid w))\<lparr>stdout := out\<rparr>
     = w\<lparr>stdout := out\<rparr>"
  by (simp add: timeCargoRepository_Remove_def timeCargoRepository_Store_def
        timeCargoRepository_Find_def timeCargoRepository_FindAll_def
        timeLocationRepository_Find_def timeLocationRepository_FindAll_def
        timeVoyageRepository_Find_def timeHandlingEventRepository_Store_def
        timeHandlingEventRepository_QueryHandlingHistory_def timeTrack_def println_stdout
        case_prod_beta)

end
